theory Spec2Isabelle
  imports Main "HOL-Library.Word"
begin

section \<open>Run-time failures\<close>

text \<open>
  A Go panic ends the call; every function of the package that can panic returns
  \<open>panic + 'a\<close>, with \<open>Inl\<close> for the panic.
\<close>

datatype panic =
  NilPointerDereference
  | IndexOutOfRange
  | NilMapAssignment
  | BuilderNotFinished

definition and_then :: "panic + 'a \<Rightarrow> ('a \<Rightarrow> panic + 'b) \<Rightarrow> panic + 'b" where
  "and_then r k = (case r of Inl e \<Rightarrow> Inl e | Inr x \<Rightarrow> k x)"

fun sequence :: "(panic + 'a) list \<Rightarrow> panic + 'a list" where
  "sequence [] = Inr []"
| "sequence (r # rs) = and_then r (\<lambda>x. and_then (sequence rs) (\<lambda>xs. Inr (x # xs)))"

section \<open>The flatbuffers library, as an object store\<close>

text \<open>
  The package writes and reads its buffers through \<open>github.com/google/flatbuffers/go\<close>.
  The library is modelled one level above the bytes: a buffer is the sequence of the
  objects written so far (byte strings, vectors of offsets, tables), and the offset of an
  object is its position in that sequence, counted from 1. Offset 0 is the library's
  "no object": a table slot whose value equals its default is not written, and a reader
  that finds no slot returns the default.
\<close>

type_synonym UOffsetT = nat

datatype fb_slot =
  SlotUOffsetT UOffsetT
  | SlotUint32 "32 word"
  | SlotInt64 "64 word"
  | SlotByte "8 word"

datatype fb_object =
  FBBytes string
  | FBVector "UOffsetT list"
  | FBTable "(nat \<times> fb_slot) list"

record Builder =
  Bytes :: "fb_object list"
  vector :: "UOffsetT list"
  object :: "(nat \<times> fb_slot) list"
  finished :: "UOffsetT option"

definition NewBuilder :: Builder where
  "NewBuilder = \<lparr>Bytes = [], vector = [], object = [], finished = None\<rparr>"

definition write_object :: "Builder \<Rightarrow> fb_object \<Rightarrow> Builder \<times> UOffsetT" where
  "write_object b obj = (b\<lparr>Bytes := Bytes b @ [obj]\<rparr>, Suc (length (Bytes b)))"

definition CreateString :: "Builder \<Rightarrow> string \<Rightarrow> Builder \<times> UOffsetT" where
  "CreateString b s = write_object b (FBBytes s)"

definition CreateByteString :: "Builder \<Rightarrow> string \<Rightarrow> Builder \<times> UOffsetT" where
  "CreateByteString b s = write_object b (FBBytes s)"

definition StartVector :: "Builder \<Rightarrow> nat \<Rightarrow> Builder" where
  "StartVector b n = b\<lparr>vector := []\<rparr>"

text \<open>The buffer grows towards its front: what is prepended last is read first.\<close>

definition PrependUOffsetT :: "Builder \<Rightarrow> UOffsetT \<Rightarrow> Builder" where
  "PrependUOffsetT b off = b\<lparr>vector := off # vector b\<rparr>"

definition EndVector :: "Builder \<Rightarrow> nat \<Rightarrow> Builder \<times> UOffsetT" where
  "EndVector b n = write_object (b\<lparr>vector := []\<rparr>) (FBVector (take n (vector b)))"

definition StartObject :: "Builder \<Rightarrow> Builder" where
  "StartObject b = b\<lparr>object := []\<rparr>"

definition Slot :: "Builder \<Rightarrow> nat \<Rightarrow> fb_slot \<Rightarrow> Builder" where
  "Slot b i v = b\<lparr>object := (i, v) # object b\<rparr>"

definition PrependUOffsetTSlot :: "Builder \<Rightarrow> nat \<Rightarrow> UOffsetT \<Rightarrow> UOffsetT \<Rightarrow> Builder" where
  "PrependUOffsetTSlot b i x d = (if x \<noteq> d then Slot b i (SlotUOffsetT x) else b)"

definition PrependUint32Slot :: "Builder \<Rightarrow> nat \<Rightarrow> 32 word \<Rightarrow> 32 word \<Rightarrow> Builder" where
  "PrependUint32Slot b i x d = (if x \<noteq> d then Slot b i (SlotUint32 x) else b)"

definition PrependInt64Slot :: "Builder \<Rightarrow> nat \<Rightarrow> 64 word \<Rightarrow> 64 word \<Rightarrow> Builder" where
  "PrependInt64Slot b i x d = (if x \<noteq> d then Slot b i (SlotInt64 x) else b)"

definition PrependByteSlot :: "Builder \<Rightarrow> nat \<Rightarrow> 8 word \<Rightarrow> 8 word \<Rightarrow> Builder" where
  "PrependByteSlot b i x d = (if x \<noteq> d then Slot b i (SlotByte x) else b)"

definition EndObject :: "Builder \<Rightarrow> Builder \<times> UOffsetT" where
  "EndObject b = write_object (b\<lparr>object := []\<rparr>) (FBTable (object b))"

definition Finish :: "Builder \<Rightarrow> UOffsetT \<Rightarrow> Builder" where
  "Finish b root = b\<lparr>finished := Some root\<rparr>"

text \<open>
  The loop \<open>for i := n - 1; i >= 0; i-- { builder.PrependUOffsetT(offsets[i]) }\<close> that
  every vector of the package is written with.
\<close>

fun prepend_offsets :: "Builder \<Rightarrow> UOffsetT list \<Rightarrow> nat \<Rightarrow> Builder" where
  "prepend_offsets b offsets 0 = b"
| "prepend_offsets b offsets (Suc i) = prepend_offsets (PrependUOffsetT b (offsets ! i)) offsets i"

text \<open>
  The reader's handle on a table: the buffer and the table's offset in it. A finished
  builder gives its buffer with \<open>FinishedBytes\<close>, which panics when \<open>Finish\<close> was not
  called; the root of a buffer is where \<open>Finish\<close> said. The zero handle (of a
  \<open>new(symbol.T)\<close> that was never initialised) has no buffer, and reading from it is an
  index out of range.
\<close>

record Table =
  Table_Bytes :: "fb_object list"
  Pos :: UOffsetT

record Buffer =
  Buffer_Bytes :: "fb_object list"
  root :: UOffsetT

definition FinishedBytes :: "Builder \<Rightarrow> panic + Buffer" where
  "FinishedBytes b =
     (case finished b of
        None \<Rightarrow> Inl BuilderNotFinished
      | Some r \<Rightarrow> Inr \<lparr>Buffer_Bytes = Bytes b, root = r\<rparr>)"

definition GetRootAs :: "Buffer \<Rightarrow> Table" where
  "GetRootAs buf = \<lparr>Table_Bytes = Buffer_Bytes buf, Pos = root buf\<rparr>"

definition zero_Table :: Table where
  "zero_Table = \<lparr>Table_Bytes = [], Pos = 0\<rparr>"

definition fb_get :: "fb_object list \<Rightarrow> UOffsetT \<Rightarrow> fb_object option" where
  "fb_get objs off = (if off = 0 \<or> length objs < off then None else Some (objs ! (off - 1)))"

definition Table_Offset :: "Table \<Rightarrow> nat \<Rightarrow> panic + fb_slot option" where
  "Table_Offset t i =
     (case fb_get (Table_Bytes t) (Pos t) of
        Some (FBTable slots) \<Rightarrow> Inr (map_of slots i)
      | _ \<Rightarrow> Inl IndexOutOfRange)"

definition Table_String :: "Table \<Rightarrow> nat \<Rightarrow> panic + string" where
  "Table_String t i =
     and_then (Table_Offset t i) (\<lambda>slot.
       case slot of
         None \<Rightarrow> Inr []
       | Some (SlotUOffsetT p) \<Rightarrow>
           (case fb_get (Table_Bytes t) p of
              Some (FBBytes s) \<Rightarrow> Inr s
            | _ \<Rightarrow> Inl IndexOutOfRange)
       | Some _ \<Rightarrow> Inl IndexOutOfRange)"

definition Table_Uint32 :: "Table \<Rightarrow> nat \<Rightarrow> panic + 32 word" where
  "Table_Uint32 t i =
     and_then (Table_Offset t i) (\<lambda>slot.
       case slot of
         None \<Rightarrow> Inr 0
       | Some (SlotUint32 x) \<Rightarrow> Inr x
       | Some _ \<Rightarrow> Inl IndexOutOfRange)"

definition Table_Int64 :: "Table \<Rightarrow> nat \<Rightarrow> panic + 64 word" where
  "Table_Int64 t i =
     and_then (Table_Offset t i) (\<lambda>slot.
       case slot of
         None \<Rightarrow> Inr 0
       | Some (SlotInt64 x) \<Rightarrow> Inr x
       | Some _ \<Rightarrow> Inl IndexOutOfRange)"

definition Table_Byte :: "Table \<Rightarrow> nat \<Rightarrow> panic + 8 word" where
  "Table_Byte t i =
     and_then (Table_Offset t i) (\<lambda>slot.
       case slot of
         None \<Rightarrow> Inr 0
       | Some (SlotByte x) \<Rightarrow> Inr x
       | Some _ \<Rightarrow> Inl IndexOutOfRange)"

text \<open>A slot that holds a vector: its elements, none when the slot is absent.\<close>

definition Table_Vector :: "Table \<Rightarrow> nat \<Rightarrow> panic + UOffsetT list" where
  "Table_Vector t i =
     and_then (Table_Offset t i) (\<lambda>slot.
       case slot of
         None \<Rightarrow> Inr []
       | Some (SlotUOffsetT p) \<Rightarrow>
           (case fb_get (Table_Bytes t) p of
              Some (FBVector offs) \<Rightarrow> Inr offs
            | _ \<Rightarrow> Inl IndexOutOfRange)
       | Some _ \<Rightarrow> Inl IndexOutOfRange)"

definition Table_VectorLen :: "Table \<Rightarrow> nat \<Rightarrow> panic + nat" where
  "Table_VectorLen t i = and_then (Table_Vector t i) (\<lambda>offs. Inr (length offs))"

text \<open>A slot that holds a table: the handle on it, none when the slot is absent.\<close>

definition Table_Indirect :: "Table \<Rightarrow> nat \<Rightarrow> panic + Table option" where
  "Table_Indirect t i =
     and_then (Table_Offset t i) (\<lambda>slot.
       case slot of
         None \<Rightarrow> Inr None
       | Some (SlotUOffsetT p) \<Rightarrow> Inr (Some \<lparr>Table_Bytes = Table_Bytes t, Pos = p\<rparr>)
       | Some _ \<Rightarrow> Inl IndexOutOfRange)"

text \<open>Element \<open>j\<close> of the vector in a slot; none when the slot is absent.\<close>

definition Table_VectorElem :: "Table \<Rightarrow> nat \<Rightarrow> nat \<Rightarrow> panic + UOffsetT option" where
  "Table_VectorElem t i j =
     and_then (Table_Offset t i) (\<lambda>slot.
       case slot of
         None \<Rightarrow> Inr None
       | Some (SlotUOffsetT p) \<Rightarrow>
           (case fb_get (Table_Bytes t) p of
              Some (FBVector offs) \<Rightarrow>
                if j < length offs then Inr (Some (offs ! j)) else Inl IndexOutOfRange
            | _ \<Rightarrow> Inl IndexOutOfRange)
       | Some _ \<Rightarrow> Inl IndexOutOfRange)"

definition Table_VectorTable :: "Table \<Rightarrow> nat \<Rightarrow> nat \<Rightarrow> panic + Table option" where
  "Table_VectorTable t i j =
     and_then (Table_VectorElem t i j) (\<lambda>e.
       Inr (map_option (\<lambda>p. \<lparr>Table_Bytes = Table_Bytes t, Pos = p\<rparr>) e))"

definition Table_VectorString :: "Table \<Rightarrow> nat \<Rightarrow> nat \<Rightarrow> panic + string" where
  "Table_VectorString t i j =
     and_then (Table_VectorElem t i j) (\<lambda>e.
       case e of
         None \<Rightarrow> Inr []
       | Some p \<Rightarrow>
           (case fb_get (Table_Bytes t) p of
              Some (FBBytes s) \<Rightarrow> Inr s
            | _ \<Rightarrow> Inl IndexOutOfRange))"

section \<open>The generated package \<open>internal/symbol\<close>\<close>

text \<open>
  Modelled from the spec: the readers and field writers of package \<open>internal/symbol\<close>,
  which the flatbuffers compiler generates from the schema (the source file that declares
  \<open>table File\<close>, \<open>table Info\<close>, \<open>table Header\<close>, \<open>table Caller\<close>, \<open>table Location\<close>,
  \<open>table CompleteItem\<close> and \<open>table CodeCompleteResults\<close>; section 6 of the spec lists the
  same fields). The generated Go file is not among the sources. A field's slot is its
  position in the table's declaration; a reader returns the field's default when the slot
  is absent; a writer leaves the slot out when the value is the default.
\<close>

definition symbol_File_Name :: "Table \<Rightarrow> panic + string" where
  "symbol_File_Name t = Table_String t 0"

definition symbol_File_FlagsLength :: "Table \<Rightarrow> panic + nat" where
  "symbol_File_FlagsLength t = Table_VectorLen t 1"

definition symbol_File_Flags :: "Table \<Rightarrow> nat \<Rightarrow> panic + string" where
  "symbol_File_Flags t j = Table_VectorString t 1 j"

definition symbol_File_TranslationUnit :: "Table \<Rightarrow> panic + string" where
  "symbol_File_TranslationUnit t = Table_String t 2"

definition symbol_File_SymbolsLength :: "Table \<Rightarrow> panic + nat" where
  "symbol_File_SymbolsLength t = Table_VectorLen t 3"

definition symbol_File_Symbols :: "Table \<Rightarrow> nat \<Rightarrow> panic + Table option" where
  "symbol_File_Symbols t j = Table_VectorTable t 3 j"

definition symbol_File_HeadersLength :: "Table \<Rightarrow> panic + nat" where
  "symbol_File_HeadersLength t = Table_VectorLen t 4"

definition symbol_File_Headers :: "Table \<Rightarrow> nat \<Rightarrow> panic + Table option" where
  "symbol_File_Headers t j = Table_VectorTable t 4 j"

definition symbol_FileAddName :: "Builder \<Rightarrow> UOffsetT \<Rightarrow> Builder" where
  "symbol_FileAddName b x = PrependUOffsetTSlot b 0 x 0"

definition symbol_FileAddFlags :: "Builder \<Rightarrow> UOffsetT \<Rightarrow> Builder" where
  "symbol_FileAddFlags b x = PrependUOffsetTSlot b 1 x 0"

definition symbol_FileAddTranslationUnit :: "Builder \<Rightarrow> UOffsetT \<Rightarrow> Builder" where
  "symbol_FileAddTranslationUnit b x = PrependUOffsetTSlot b 2 x 0"

definition symbol_FileAddSymbols :: "Builder \<Rightarrow> UOffsetT \<Rightarrow> Builder" where
  "symbol_FileAddSymbols b x = PrependUOffsetTSlot b 3 x 0"

definition symbol_FileAddHeaders :: "Builder \<Rightarrow> UOffsetT \<Rightarrow> Builder" where
  "symbol_FileAddHeaders b x = PrependUOffsetTSlot b 4 x 0"

definition symbol_Info_ID :: "Table \<Rightarrow> panic + string" where
  "symbol_Info_ID t = Table_String t 0"

definition symbol_Info_DeclsLength :: "Table \<Rightarrow> panic + nat" where
  "symbol_Info_DeclsLength t = Table_VectorLen t 1"

definition symbol_Info_Decls :: "Table \<Rightarrow> nat \<Rightarrow> panic + Table option" where
  "symbol_Info_Decls t j = Table_VectorTable t 1 j"

definition symbol_Info_Def :: "Table \<Rightarrow> panic + Table option" where
  "symbol_Info_Def t = Table_Indirect t 2"

definition symbol_Info_CallersLength :: "Table \<Rightarrow> panic + nat" where
  "symbol_Info_CallersLength t = Table_VectorLen t 3"

definition symbol_Info_Callers :: "Table \<Rightarrow> nat \<Rightarrow> panic + Table option" where
  "symbol_Info_Callers t j = Table_VectorTable t 3 j"

definition symbol_InfoAddID :: "Builder \<Rightarrow> UOffsetT \<Rightarrow> Builder" where
  "symbol_InfoAddID b x = PrependUOffsetTSlot b 0 x 0"

definition symbol_InfoAddDecls :: "Builder \<Rightarrow> UOffsetT \<Rightarrow> Builder" where
  "symbol_InfoAddDecls b x = PrependUOffsetTSlot b 1 x 0"

definition symbol_InfoAddDef :: "Builder \<Rightarrow> UOffsetT \<Rightarrow> Builder" where
  "symbol_InfoAddDef b x = PrependUOffsetTSlot b 2 x 0"

definition symbol_InfoAddCallers :: "Builder \<Rightarrow> UOffsetT \<Rightarrow> Builder" where
  "symbol_InfoAddCallers b x = PrependUOffsetTSlot b 3 x 0"

definition symbol_Header_FileID :: "Table \<Rightarrow> panic + string" where
  "symbol_Header_FileID t = Table_String t 0"

definition symbol_Header_Mtime :: "Table \<Rightarrow> panic + 64 word" where
  "symbol_Header_Mtime t = Table_Int64 t 1"

definition symbol_HeaderAddFileID :: "Builder \<Rightarrow> UOffsetT \<Rightarrow> Builder" where
  "symbol_HeaderAddFileID b x = PrependUOffsetTSlot b 0 x 0"

definition symbol_HeaderAddMtime :: "Builder \<Rightarrow> 64 word \<Rightarrow> Builder" where
  "symbol_HeaderAddMtime b x = PrependInt64Slot b 1 x 0"

definition symbol_Caller_Location :: "Table \<Rightarrow> panic + Table option" where
  "symbol_Caller_Location t = Table_Indirect t 0"

definition symbol_Caller_FuncCall :: "Table \<Rightarrow> panic + 8 word" where
  "symbol_Caller_FuncCall t = Table_Byte t 1"

definition symbol_CallerAddLocation :: "Builder \<Rightarrow> UOffsetT \<Rightarrow> Builder" where
  "symbol_CallerAddLocation b x = PrependUOffsetTSlot b 0 x 0"

definition symbol_CallerAddFuncCall :: "Builder \<Rightarrow> 8 word \<Rightarrow> Builder" where
  "symbol_CallerAddFuncCall b x = PrependByteSlot b 1 x 0"

definition symbol_Location_FileName :: "Table \<Rightarrow> panic + string" where
  "symbol_Location_FileName t = Table_String t 0"

definition symbol_Location_Line :: "Table \<Rightarrow> panic + 32 word" where
  "symbol_Location_Line t = Table_Uint32 t 1"

definition symbol_Location_Col :: "Table \<Rightarrow> panic + 32 word" where
  "symbol_Location_Col t = Table_Uint32 t 2"

definition symbol_Location_Offset :: "Table \<Rightarrow> panic + 32 word" where
  "symbol_Location_Offset t = Table_Uint32 t 3"

definition symbol_Location_USR :: "Table \<Rightarrow> panic + string" where
  "symbol_Location_USR t = Table_String t 4"

definition symbol_LocationAddFileName :: "Builder \<Rightarrow> UOffsetT \<Rightarrow> Builder" where
  "symbol_LocationAddFileName b x = PrependUOffsetTSlot b 0 x 0"

definition symbol_LocationAddLine :: "Builder \<Rightarrow> 32 word \<Rightarrow> Builder" where
  "symbol_LocationAddLine b x = PrependUint32Slot b 1 x 0"

definition symbol_LocationAddCol :: "Builder \<Rightarrow> 32 word \<Rightarrow> Builder" where
  "symbol_LocationAddCol b x = PrependUint32Slot b 2 x 0"

definition symbol_LocationAddOffset :: "Builder \<Rightarrow> 32 word \<Rightarrow> Builder" where
  "symbol_LocationAddOffset b x = PrependUint32Slot b 3 x 0"

definition symbol_LocationAddUSR :: "Builder \<Rightarrow> UOffsetT \<Rightarrow> Builder" where
  "symbol_LocationAddUSR b x = PrependUOffsetTSlot b 4 x 0"

definition symbol_CompleteItem_Word :: "Table \<Rightarrow> panic + string" where
  "symbol_CompleteItem_Word t = Table_String t 0"

definition symbol_CompleteItem_Abbr :: "Table \<Rightarrow> panic + string" where
  "symbol_CompleteItem_Abbr t = Table_String t 1"

definition symbol_CompleteItem_Menu :: "Table \<Rightarrow> panic + string" where
  "symbol_CompleteItem_Menu t = Table_String t 2"

definition symbol_CompleteItem_Info :: "Table \<Rightarrow> panic + string" where
  "symbol_CompleteItem_Info t = Table_String t 3"

definition symbol_CompleteItem_Kind :: "Table \<Rightarrow> panic + string" where
  "symbol_CompleteItem_Kind t = Table_String t 4"

definition symbol_CompleteItem_Icase :: "Table \<Rightarrow> panic + 8 word" where
  "symbol_CompleteItem_Icase t = Table_Byte t 5"

definition symbol_CompleteItem_Dup :: "Table \<Rightarrow> panic + 8 word" where
  "symbol_CompleteItem_Dup t = Table_Byte t 6"

definition symbol_CompleteItemAddWord :: "Builder \<Rightarrow> UOffsetT \<Rightarrow> Builder" where
  "symbol_CompleteItemAddWord b x = PrependUOffsetTSlot b 0 x 0"

definition symbol_CompleteItemAddAbbr :: "Builder \<Rightarrow> UOffsetT \<Rightarrow> Builder" where
  "symbol_CompleteItemAddAbbr b x = PrependUOffsetTSlot b 1 x 0"

definition symbol_CompleteItemAddMenu :: "Builder \<Rightarrow> UOffsetT \<Rightarrow> Builder" where
  "symbol_CompleteItemAddMenu b x = PrependUOffsetTSlot b 2 x 0"

definition symbol_CompleteItemAddInfo :: "Builder \<Rightarrow> UOffsetT \<Rightarrow> Builder" where
  "symbol_CompleteItemAddInfo b x = PrependUOffsetTSlot b 3 x 0"

definition symbol_CompleteItemAddKind :: "Builder \<Rightarrow> UOffsetT \<Rightarrow> Builder" where
  "symbol_CompleteItemAddKind b x = PrependUOffsetTSlot b 4 x 0"

definition symbol_CompleteItemAddIcase :: "Builder \<Rightarrow> 8 word \<Rightarrow> Builder" where
  "symbol_CompleteItemAddIcase b x = PrependByteSlot b 5 x 0"

definition symbol_CompleteItemAddDup :: "Builder \<Rightarrow> 8 word \<Rightarrow> Builder" where
  "symbol_CompleteItemAddDup b x = PrependByteSlot b 6 x 0"

definition symbol_CodeCompleteResults_ResultsLength :: "Table \<Rightarrow> panic + nat" where
  "symbol_CodeCompleteResults_ResultsLength t = Table_VectorLen t 0"

definition symbol_CodeCompleteResults_Results :: "Table \<Rightarrow> nat \<Rightarrow> panic + Table option" where
  "symbol_CodeCompleteResults_Results t j = Table_VectorTable t 0 j"

definition symbol_CodeCompleteResultsAddResults :: "Builder \<Rightarrow> UOffsetT \<Rightarrow> Builder" where
  "symbol_CodeCompleteResultsAddResults b x = PrependUOffsetTSlot b 0 x 0"

section \<open>What the package takes from outside\<close>

text \<open>
  \<open>ID\<close>, \<open>FileID\<close>, the hash functions \<open>ToID\<close> and \<open>ToFileID\<close> and the \<open>String\<close> methods
  of the two types are declared in a file of the package that is not among the sources.
  An identifier is modelled as the byte string of its digest, and the four functions are
  parameters (\<open>ToID\<close>, \<open>ToFileID\<close>, \<open>IDString\<close>, \<open>FileIDString\<close>) of every definition that
  calls them: nothing below depends on what they compute.
\<close>

type_synonym ID = string
type_synonym FileID = string

text \<open>
  \<open>time.Time\<close>: the seconds that \<open>Unix()\<close> returns and the nanoseconds within the second.
  \<open>clang.File\<close>: the handle on a header, with its \<open>Name()\<close> and \<open>Time()\<close>.
\<close>

record Time =
  Time_Unix :: "64 word"
  Time_Nanosecond :: "32 word"

record clang_File =
  clang_File_Name :: string
  clang_File_Time :: Time

text \<open>\<open>filepath.Base\<close> and \<open>filepath.Clean\<close> of the Go library, with \<open>/\<close> as the separator.\<close>

definition filepath_Base :: "string \<Rightarrow> string" where
  "filepath_Base path =
     (if path = [] then ''.''
      else let stripped = rev (dropWhile (\<lambda>c. c = CHR ''/'') (rev path));
               elem = rev (takeWhile (\<lambda>c. c \<noteq> CHR ''/'') (rev stripped))
           in if elem = [] then ''/'' else elem)"

function backtrack :: "string \<Rightarrow> nat \<Rightarrow> nat \<Rightarrow> nat" where
  "backtrack buf dotdot w =
     (if dotdot < w \<and> buf ! w \<noteq> CHR ''/'' then backtrack buf dotdot (w - 1) else w)"
  by pat_completeness auto
termination
  by (relation "measure (\<lambda>(buf, dotdot, w). w)") auto

declare backtrack.simps [simp del]

function clean_loop :: "string \<Rightarrow> bool \<Rightarrow> nat \<Rightarrow> string \<Rightarrow> nat \<Rightarrow> string" where
  "clean_loop path rooted r out dotdot =
     (if r < length path then
        (if path ! r = CHR ''/'' then clean_loop path rooted (r + 1) out dotdot
         else if path ! r = CHR ''.'' \<and> (r + 1 = length path \<or> path ! (r + 1) = CHR ''/'')
           then clean_loop path rooted (r + 1) out dotdot
         else if path ! r = CHR ''.'' \<and> path ! (r + 1) = CHR ''.''
                 \<and> (r + 2 = length path \<or> path ! (r + 2) = CHR ''/'')
           then (if dotdot < length out
                 then clean_loop path rooted (r + 2)
                        (take (backtrack out dotdot (length out - 1)) out) dotdot
                 else if \<not> rooted
                 then clean_loop path rooted (r + 2)
                        ((if 0 < length out then out @ ''/'' else out) @ ''..'')
                        (length ((if 0 < length out then out @ ''/'' else out) @ ''..''))
                 else clean_loop path rooted (r + 2) out dotdot)
         else clean_loop path rooted
                (r + length (takeWhile (\<lambda>c. c \<noteq> CHR ''/'') (drop r path)))
                ((if (rooted \<and> length out \<noteq> 1) \<or> (\<not> rooted \<and> length out \<noteq> 0)
                  then out @ ''/'' else out)
                 @ takeWhile (\<lambda>c. c \<noteq> CHR ''/'') (drop r path))
                dotdot)
      else out)"
  by pat_completeness auto
termination
proof (relation "measure (\<lambda>(path, rooted, r, out, dotdot). length path - r)", simp_all)
  fix path :: string and r :: nat
  assume r: "r < length path" and c: "path ! r \<noteq> CHR ''/''"
  from r have "drop r path = path ! r # drop (Suc r) path"
    by (simp add: Cons_nth_drop_Suc)
  with c have "0 < length (takeWhile (\<lambda>c. c \<noteq> CHR ''/'') (drop r path))"
    by simp
  with r show "length path - (r + length (takeWhile (\<lambda>c. c \<noteq> CHR ''/'') (drop r path)))
      < length path - r"
    by arith
qed

declare clean_loop.simps [simp del]

definition filepath_Clean :: "string \<Rightarrow> string" where
  "filepath_Clean path =
     (if path = [] then ''.''
      else let rooted = (path ! 0 = CHR ''/'');
               out = clean_loop path rooted (if rooted then 1 else 0)
                       (if rooted then ''/'' else []) (if rooted then 1 else 0)
           in if out = [] then ''.'' else out)"

section \<open>The entities of \<open>type.go\<close>\<close>

text \<open>
  Every entity has its build-mode fields and a pointer to its table in a decoded buffer
  (\<open>None\<close> is the nil pointer). Field names carry the name of their struct.
\<close>

record Location =
  location_fileName :: string
  location_line :: "32 word"
  location_col :: "32 word"
  location_offset :: "32 word"
  location_usr :: string
  location_location :: "Table option"

record Caller =
  caller_location :: Location
  caller_funcCall :: bool
  caller_caller :: "Table option"

record Info =
  info_id :: ID
  info_decls :: "Location list"
  info_def :: Location
  info_callers :: "Caller option list"
  info_info :: "Table option"

record Header =
  header_fileid :: FileID
  header_mtime :: Time
  header_header :: "Table option"

text \<open>
  A Go map is nil (\<open>None\<close>) until it is made; reading a nil map finds nothing, writing to
  it panics. The slices of pointers \<open>[]*Header\<close>, \<open>[]*Caller\<close> and \<open>[]*Info\<close> are lists of
  options, \<open>None\<close> for a nil entry.
\<close>

record File =
  file_name :: string
  file_flags :: "string list"
  file_translationUnit :: string
  file_locations :: "(Location \<rightharpoonup> ID) option"
  file_symbols :: "(ID \<rightharpoonup> Info) option"
  file_headers :: "Header option list"
  file_builder :: "Builder option"
  file_file :: "Table option"

record CompleteItem =
  completeItem_word :: string
  completeItem_abbr :: string
  completeItem_menu :: string
  completeItem_info :: string
  completeItem_kind :: string
  completeItem_icase :: bool
  completeItem_dup :: bool
  completeItem_completeItems :: "Table option"

record CodeCompleteResults =
  codeCompleteResults :: "Table option"

text \<open>The zero values \<open>Location{}\<close>, \<open>Caller{}\<close>, \<open>Info{}\<close>, \<open>Header{}\<close>, \<open>File{}\<close>, \<open>CompleteItem{}\<close>.\<close>

definition zero_Location :: Location where
  "zero_Location =
     \<lparr>location_fileName = [], location_line = 0, location_col = 0, location_offset = 0,
      location_usr = [], location_location = None\<rparr>"

definition zero_Caller :: Caller where
  "zero_Caller = \<lparr>caller_location = zero_Location, caller_funcCall = False, caller_caller = None\<rparr>"

definition zero_Info :: Info where
  "zero_Info =
     \<lparr>info_id = [], info_decls = [], info_def = zero_Location, info_callers = [],
      info_info = None\<rparr>"

text \<open>
  The zero \<open>time.Time\<close> is January 1 of year 1, 00:00:00 UTC: its \<open>Unix()\<close> is
  \<open>-62135596800\<close> and its \<open>Nanosecond()\<close> is 0.
\<close>

definition zero_Time :: Time where
  "zero_Time = \<lparr>Time_Unix = - 62135596800, Time_Nanosecond = 0\<rparr>"

definition zero_Header :: Header where
  "zero_Header = \<lparr>header_fileid = [], header_mtime = zero_Time, header_header = None\<rparr>"

definition zero_File :: File where
  "zero_File =
     \<lparr>file_name = [], file_flags = [], file_translationUnit = [], file_locations = None,
      file_symbols = None, file_headers = [], file_builder = None, file_file = None\<rparr>"

definition zero_CompleteItem :: CompleteItem where
  "zero_CompleteItem =
     \<lparr>completeItem_word = [], completeItem_abbr = [], completeItem_menu = [],
      completeItem_info = [], completeItem_kind = [], completeItem_icase = False,
      completeItem_dup = False, completeItem_completeItems = None\<rparr>"

text \<open>
  \<open>reflect.DeepEqual(x, y)\<close> takes two interface values. The two kinds of value the
  package passes are a \<open>Location\<close> and a pointer to a \<open>Location\<close>; values of distinct
  types are never deeply equal, two structs are deeply equal when their fields are, and
  two pointers when they are both nil or point to deeply equal values.
\<close>

datatype go_value =
  Location_value Location
  | Location_pointer "Location option"

fun DeepEqual :: "go_value \<Rightarrow> go_value \<Rightarrow> bool" where
  "DeepEqual (Location_value x) (Location_value y) = (x = y)"
| "DeepEqual (Location_pointer x) (Location_pointer y) = (x = y)"
| "DeepEqual _ _ = False"

subsection \<open>Location\<close>

definition Location_FileName :: "Location \<Rightarrow> panic + string" where
  "Location_FileName l =
     (case location_location l of
        None \<Rightarrow> Inr (location_fileName l)
      | Some t \<Rightarrow> symbol_Location_FileName t)"

definition Location_Line :: "Location \<Rightarrow> panic + 32 word" where
  "Location_Line l =
     (case location_location l of
        None \<Rightarrow> Inl NilPointerDereference
      | Some t \<Rightarrow> symbol_Location_Line t)"

definition Location_Col :: "Location \<Rightarrow> panic + 32 word" where
  "Location_Col l =
     (case location_location l of
        None \<Rightarrow> Inl NilPointerDereference
      | Some t \<Rightarrow> symbol_Location_Col t)"

definition Location_Offset :: "Location \<Rightarrow> panic + 32 word" where
  "Location_Offset l =
     (case location_location l of
        None \<Rightarrow> Inl NilPointerDereference
      | Some t \<Rightarrow> symbol_Location_Offset t)"

definition Location_USR :: "Location \<Rightarrow> panic + string" where
  "Location_USR l =
     (case location_location l of
        None \<Rightarrow> Inr (location_usr l)
      | Some t \<Rightarrow> symbol_Location_USR t)"

definition Location_serialize :: "Location \<Rightarrow> Builder \<Rightarrow> Builder \<times> UOffsetT" where
  "Location_serialize l builder =
     (let (b1, fname) = CreateString builder (location_fileName l);
          (b2, usr) = CreateString b1 (location_usr l);
          b3 = StartObject b2;
          b4 = symbol_LocationAddFileName b3 fname;
          b5 = symbol_LocationAddLine b4 (location_line l);
          b6 = symbol_LocationAddCol b5 (location_col l);
          b7 = symbol_LocationAddOffset b6 (location_offset l);
          b8 = symbol_LocationAddUSR b7 usr
      in EndObject b8)"

text \<open>
  \<open>isExist\<close> of \<open>type.go\<close> has a pointer receiver, so the first argument of \<open>DeepEqual\<close>
  is the pointer \<open>l\<close> and the second the value \<open>Location{}\<close>. The other draft of the file
  declares the method on the value (\<open>func (l Location) isExist()\<close>): \<open>isExist_draft\<close>.
\<close>

definition isExist :: "Location \<Rightarrow> bool" where
  "isExist l = (\<not> DeepEqual (Location_pointer (Some l)) (Location_value zero_Location))"

definition isExist_draft :: "Location \<Rightarrow> bool" where
  "isExist_draft l = (\<not> DeepEqual (Location_value l) (Location_value zero_Location))"

definition CreateLocation :: "string \<Rightarrow> 32 word \<Rightarrow> 32 word \<Rightarrow> Builder" where
  "CreateLocation filename line col =
     (let l = zero_Location\<lparr>location_fileName := filename, location_line := line,
                              location_col := col\<rparr>;
          builder = NewBuilder;
          (b1, fname) = CreateString builder (location_fileName l);
          b2 = StartObject b1;
          b3 = symbol_LocationAddFileName b2 fname;
          b4 = symbol_LocationAddLine b3 (location_line l);
          b5 = symbol_LocationAddCol b4 (location_col l);
          (b6, end) = EndObject b5
      in Finish b6 end)"

subsection \<open>Caller\<close>

definition Caller_Location :: "Caller \<Rightarrow> panic + Location" where
  "Caller_Location c =
     (case caller_caller c of
        None \<Rightarrow> Inl NilPointerDereference
      | Some t \<Rightarrow>
          and_then (symbol_Caller_Location t) (\<lambda>obj.
            Inr (zero_Location\<lparr>location_location :=
                   Some (case obj of None \<Rightarrow> zero_Table | Some x \<Rightarrow> x)\<rparr>)))"

definition Caller_FuncCall :: "Caller \<Rightarrow> panic + bool" where
  "Caller_FuncCall c =
     (case caller_caller c of
        None \<Rightarrow> Inl NilPointerDereference
      | Some t \<Rightarrow> and_then (symbol_Caller_FuncCall t) (\<lambda>x. Inr (x \<noteq> 0)))"

definition Caller_serialize :: "Caller option \<Rightarrow> Builder \<Rightarrow> panic + Builder \<times> UOffsetT" where
  "Caller_serialize c builder =
     (case c of
        None \<Rightarrow> Inl NilPointerDereference
      | Some c \<Rightarrow>
          (let (b1, locOffset) = Location_serialize (caller_location c) builder;
               b2 = StartObject b1;
               b3 = symbol_CallerAddLocation b2 locOffset;
               funcCall = (if caller_funcCall c then 1 else 0);
               b4 = symbol_CallerAddFuncCall b3 funcCall
           in Inr (EndObject b4)))"

subsection \<open>Info\<close>

text \<open>The loop \<open>for _, x := range xs { offsets = append(offsets, x.serialize(builder)) }\<close>.\<close>

fun serialize_each ::
  "('a \<Rightarrow> Builder \<Rightarrow> panic + Builder \<times> UOffsetT) \<Rightarrow> 'a list \<Rightarrow> Builder
   \<Rightarrow> panic + Builder \<times> UOffsetT list" where
  "serialize_each ser [] builder = Inr (builder, [])"
| "serialize_each ser (x # xs) builder =
     and_then (ser x builder) (\<lambda>(b1, off).
       and_then (serialize_each ser xs b1) (\<lambda>(b2, offs). Inr (b2, off # offs)))"

text \<open>
  \<open>StartXVector(builder, n)\<close>, the loop that prepends the \<open>n\<close> offsets from the last to
  the first, and \<open>EndVector(n)\<close>.
\<close>

definition write_vector :: "Builder \<Rightarrow> UOffsetT list \<Rightarrow> nat \<Rightarrow> Builder \<times> UOffsetT" where
  "write_vector builder offsets n =
     EndVector (prepend_offsets (StartVector builder n) offsets n) n"

definition Info_serialize :: "(ID \<Rightarrow> string) \<Rightarrow> Info \<Rightarrow> Builder \<Rightarrow> panic + Builder \<times> UOffsetT" where
  "Info_serialize IDString info builder =
     (let (b1, id) = CreateString builder (IDString (info_id info));
          declsNum = length (info_decls info)
      in and_then
           (if 0 < declsNum
            then and_then
                   (serialize_each (\<lambda>decl b. Inr (Location_serialize decl b)) (info_decls info) b1)
                   (\<lambda>(b2, declsOffsets). Inr (write_vector b2 declsOffsets declsNum))
            else Inr (b1, 0))
           (\<lambda>(b3, declVecOffset).
              let (b4, defOffset) = Location_serialize (info_def info) b3;
                  callersNum = length (info_callers info)
              in and_then
                   (if 0 < callersNum
                    then and_then
                           (serialize_each Caller_serialize (info_callers info) b4)
                           (\<lambda>(b5, callersOffsets). Inr (write_vector b5 callersOffsets callersNum))
                    else Inr (b4, 0))
                   (\<lambda>(b6, callerVecOffset).
                      let b7 = StartObject b6;
                          b8 = symbol_InfoAddID b7 id;
                          b9 = symbol_InfoAddDecls b8 declVecOffset;
                          b10 = symbol_InfoAddDef b9 defOffset;
                          b11 = symbol_InfoAddCallers b10 callerVecOffset
                      in Inr (EndObject b11))))"

definition Info_ID :: "(string \<Rightarrow> ID) \<Rightarrow> Info \<Rightarrow> panic + ID" where
  "Info_ID ToID info =
     (case info_info info of
        None \<Rightarrow> Inl NilPointerDereference
      | Some t \<Rightarrow> and_then (symbol_Info_ID t) (\<lambda>s. Inr (ToID s)))"

definition Info_Decls :: "Info \<Rightarrow> panic + Location list" where
  "Info_Decls info =
     (case info_info info of
        None \<Rightarrow> Inl NilPointerDereference
      | Some t \<Rightarrow>
          and_then (symbol_Info_DeclsLength t) (\<lambda>n.
            sequence (map (\<lambda>i.
              and_then (symbol_Info_Decls t i) (\<lambda>obj.
                Inr (case obj of
                       None \<Rightarrow> zero_Location
                     | Some x \<Rightarrow> zero_Location\<lparr>location_location := Some x\<rparr>)))
              [0..<n])))"

definition Info_Def :: "Info \<Rightarrow> panic + Location" where
  "Info_Def info =
     (case info_info info of
        None \<Rightarrow> Inl NilPointerDereference
      | Some t \<Rightarrow>
          and_then (symbol_Info_Def t) (\<lambda>obj.
            Inr (zero_Location\<lparr>location_location :=
                   Some (case obj of None \<Rightarrow> zero_Table | Some x \<Rightarrow> x)\<rparr>)))"

definition Info_Callers :: "Info \<Rightarrow> panic + Caller option list" where
  "Info_Callers info =
     (case info_info info of
        None \<Rightarrow> Inl NilPointerDereference
      | Some t \<Rightarrow>
          and_then (symbol_Info_CallersLength t) (\<lambda>n.
            sequence (map (\<lambda>i.
              and_then (symbol_Info_Callers t i) (\<lambda>obj.
                Inr (map_option (\<lambda>x. zero_Caller\<lparr>caller_caller := Some x\<rparr>) obj)))
              [0..<n])))"

subsection \<open>Header\<close>

definition Header_FileID :: "(string \<Rightarrow> FileID) \<Rightarrow> Header \<Rightarrow> panic + FileID" where
  "Header_FileID ToFileID h =
     (case header_header h of
        None \<Rightarrow> Inl NilPointerDereference
      | Some t \<Rightarrow> and_then (symbol_Header_FileID t) (\<lambda>s. Inr (ToFileID s)))"

definition Header_Mtime :: "Header \<Rightarrow> panic + 64 word" where
  "Header_Mtime h =
     (case header_header h of
        None \<Rightarrow> Inl NilPointerDereference
      | Some t \<Rightarrow> symbol_Header_Mtime t)"

definition Header_serialize ::
  "(FileID \<Rightarrow> string) \<Rightarrow> Header option \<Rightarrow> Builder \<Rightarrow> panic + Builder \<times> UOffsetT" where
  "Header_serialize FileIDString h builder =
     (case h of
        None \<Rightarrow> Inl NilPointerDereference
      | Some h \<Rightarrow>
          (let (b1, fid) = CreateString builder (FileIDString (header_fileid h));
               b2 = StartObject b1;
               b3 = symbol_HeaderAddFileID b2 fid;
               b4 = symbol_HeaderAddMtime b3 (Time_Unix (header_mtime h))
           in Inr (EndObject b4)))"

subsection \<open>File\<close>

text \<open>
  \<open>len(m)\<close> of a map, and a \<open>range\<close> over it. Go visits the keys of a map in an order of
  its own choosing: \<open>range\<close> takes that order as an argument, and \<open>iteration_order\<close> says
  that a list is one of the orders Go may choose (every key once).
\<close>

definition len_map :: "('k \<rightharpoonup> 'v) option \<Rightarrow> nat" where
  "len_map m = (case m of None \<Rightarrow> 0 | Some m \<Rightarrow> card (dom m))"

definition range_map :: "('k \<rightharpoonup> 'v) option \<Rightarrow> 'k list \<Rightarrow> 'v list" where
  "range_map m order = (case m of None \<Rightarrow> [] | Some m \<Rightarrow> List.map_filter m order)"

definition iteration_order :: "('k \<rightharpoonup> 'v) option \<Rightarrow> 'k list \<Rightarrow> bool" where
  "iteration_order m order =
     (distinct order \<and> set order = (case m of None \<Rightarrow> {} | Some m \<Rightarrow> dom m))"

definition index_map :: "('k \<rightharpoonup> 'v) option \<Rightarrow> 'k \<Rightarrow> 'v option" where
  "index_map m k = (case m of None \<Rightarrow> None | Some m \<Rightarrow> m k)"

definition NewFile :: "string \<Rightarrow> string list \<Rightarrow> File" where
  "NewFile name flags =
     zero_File\<lparr>file_name := name, file_flags := flags, file_locations := Some Map.empty,
                file_symbols := Some Map.empty, file_builder := Some NewBuilder\<rparr>"

definition GetRootAsFile :: "Buffer \<Rightarrow> File" where
  "GetRootAsFile buf = zero_File\<lparr>file_file := Some (GetRootAs buf)\<rparr>"

definition File_Name :: "File \<Rightarrow> panic + string" where
  "File_Name f =
     (if file_name f \<noteq> [] then Inr (file_name f)
      else case file_file f of
             None \<Rightarrow> Inl NilPointerDereference
           | Some t \<Rightarrow> symbol_File_Name t)"

definition File_Flags :: "File \<Rightarrow> panic + string list" where
  "File_Flags f =
     (if 0 < length (file_flags f) then Inr (file_flags f)
      else case file_file f of
             None \<Rightarrow> Inl NilPointerDereference
           | Some t \<Rightarrow>
               and_then (symbol_File_FlagsLength t) (\<lambda>n.
                 sequence (map (\<lambda>i. symbol_File_Flags t i) [0..<n])))"

definition File_TranslationUnit :: "File \<Rightarrow> panic + string" where
  "File_TranslationUnit f =
     (if 0 < length (file_translationUnit f) then Inr (file_translationUnit f)
      else case file_file f of
             None \<Rightarrow> Inl NilPointerDereference
           | Some t \<Rightarrow> symbol_File_TranslationUnit t)"

definition File_Symbols :: "File \<Rightarrow> ID list \<Rightarrow> panic + Info option list" where
  "File_Symbols f order =
     (if 0 < len_map (file_symbols f)
      then Inr (replicate (len_map (file_symbols f)) None
                @ map Some (range_map (file_symbols f) order))
      else case file_file f of
             None \<Rightarrow> Inl NilPointerDereference
           | Some t \<Rightarrow>
               and_then (symbol_File_SymbolsLength t) (\<lambda>n.
                 sequence (map (\<lambda>i.
                   and_then (symbol_File_Symbols t i) (\<lambda>obj.
                     Inr (map_option (\<lambda>x. zero_Info\<lparr>info_info := Some x\<rparr>) obj)))
                   [0..<n])))"

definition File_Headers :: "File \<Rightarrow> panic + Header option list" where
  "File_Headers f =
     (if 0 < length (file_headers f) then Inr (file_headers f)
      else case file_file f of
             None \<Rightarrow> Inl NilPointerDereference
           | Some t \<Rightarrow>
               and_then (symbol_File_HeadersLength t) (\<lambda>n.
                 sequence (map (\<lambda>i.
                   and_then (symbol_File_Headers t i) (\<lambda>obj.
                     Inr (map_option (\<lambda>x. zero_Header\<lparr>header_header := Some x\<rparr>) obj)))
                   [0..<n])))"

definition AddTranslationUnit :: "File \<Rightarrow> string \<Rightarrow> File" where
  "AddTranslationUnit f buf = f\<lparr>file_translationUnit := buf\<rparr>"

definition addSymbol :: "(string \<Rightarrow> ID) \<Rightarrow> File \<Rightarrow> Location \<Rightarrow> Location \<Rightarrow> panic + File" where
  "addSymbol ToID f loc defn =
     (let id = ToID (location_usr loc);
          sym0 = (case index_map (file_symbols f) id of
                    None \<Rightarrow> zero_Info\<lparr>info_id := id\<rparr>
                  | Some found \<Rightarrow> found);
          sym1 = sym0\<lparr>info_decls := info_decls sym0 @ [loc]\<rparr>;
          sym2 = (if isExist defn then sym1\<lparr>info_def := defn\<rparr> else sym1)
      in case file_locations f of
           None \<Rightarrow> Inl NilMapAssignment
         | Some locations \<Rightarrow>
             (case file_symbols f of
                None \<Rightarrow> Inl NilMapAssignment
              | Some symbols \<Rightarrow>
                  Inr (f\<lparr>file_locations := Some (locations(loc \<mapsto> id)),
                         file_symbols := Some (symbols(id \<mapsto> sym2))\<rparr>)))"

definition AddDecl :: "(string \<Rightarrow> ID) \<Rightarrow> File \<Rightarrow> Location \<Rightarrow> panic + File" where
  "AddDecl ToID f loc = addSymbol ToID f loc zero_Location"

definition AddDefinition :: "(string \<Rightarrow> ID) \<Rightarrow> File \<Rightarrow> Location \<Rightarrow> Location \<Rightarrow> panic + File" where
  "AddDefinition ToID f loc defn = addSymbol ToID f loc defn"

text \<open>The same three functions in the other draft, where \<open>isExist\<close> is \<open>isExist_draft\<close>.\<close>

definition addSymbol_draft :: "(string \<Rightarrow> ID) \<Rightarrow> File \<Rightarrow> Location \<Rightarrow> Location \<Rightarrow> panic + File" where
  "addSymbol_draft ToID f loc defn =
     (let id = ToID (location_usr loc);
          sym0 = (case index_map (file_symbols f) id of
                    None \<Rightarrow> zero_Info\<lparr>info_id := id\<rparr>
                  | Some found \<Rightarrow> found);
          sym1 = sym0\<lparr>info_decls := info_decls sym0 @ [loc]\<rparr>;
          sym2 = (if isExist_draft defn then sym1\<lparr>info_def := defn\<rparr> else sym1)
      in case file_locations f of
           None \<Rightarrow> Inl NilMapAssignment
         | Some locations \<Rightarrow>
             (case file_symbols f of
                None \<Rightarrow> Inl NilMapAssignment
              | Some symbols \<Rightarrow>
                  Inr (f\<lparr>file_locations := Some (locations(loc \<mapsto> id)),
                         file_symbols := Some (symbols(id \<mapsto> sym2))\<rparr>)))"

definition AddDecl_draft :: "(string \<Rightarrow> ID) \<Rightarrow> File \<Rightarrow> Location \<Rightarrow> panic + File" where
  "AddDecl_draft ToID f loc = addSymbol_draft ToID f loc zero_Location"

definition AddDefinition_draft ::
  "(string \<Rightarrow> ID) \<Rightarrow> File \<Rightarrow> Location \<Rightarrow> Location \<Rightarrow> panic + File" where
  "AddDefinition_draft ToID f loc defn = addSymbol_draft ToID f loc defn"

definition notExistHeaderName :: "string \<Rightarrow> string" where
  "notExistHeaderName headPath = ''IDoNotReallyExist-'' @ filepath_Base headPath"

text \<open>\<open>now\<close> is what \<open>time.Now()\<close> returns when \<open>AddHeader\<close> runs.\<close>

definition AddHeader :: "(string \<Rightarrow> FileID) \<Rightarrow> Time \<Rightarrow> File \<Rightarrow> string \<Rightarrow> clang_File \<Rightarrow> File" where
  "AddHeader ToFileID now f includePath headerFile =
     (let hdr = (if clang_File_Name headerFile = []
                 then zero_Header\<lparr>
                        header_fileid :=
                          ToFileID (notExistHeaderName (filepath_Clean (clang_File_Name headerFile))),
                        header_mtime := now\<rparr>
                 else zero_Header\<lparr>
                        header_fileid := ToFileID (filepath_Clean (clang_File_Name headerFile)),
                        header_mtime := clang_File_Time headerFile\<rparr>)
      in f\<lparr>file_headers := file_headers f @ [Some hdr]\<rparr>)"

definition AddCaller :: "(string \<Rightarrow> ID) \<Rightarrow> File \<Rightarrow> Location \<Rightarrow> Location \<Rightarrow> bool \<Rightarrow> panic + File" where
  "AddCaller ToID f symb defn funcCall =
     (let id = ToID (location_usr symb);
          syms0 = (case index_map (file_symbols f) id of
                     None \<Rightarrow> zero_Info\<lparr>info_id := id\<rparr>
                   | Some syms \<Rightarrow> syms);
          syms1 = syms0\<lparr>info_callers := info_callers syms0
                     @ [Some (zero_Caller\<lparr>caller_location := symb, caller_funcCall := funcCall\<rparr>)]\<rparr>
      in case file_symbols f of
           None \<Rightarrow> Inl NilMapAssignment
         | Some symbols \<Rightarrow> Inr (f\<lparr>file_symbols := Some (symbols(id \<mapsto> syms1))\<rparr>))"



definition Serialize ::
  "(ID \<Rightarrow> string) \<Rightarrow> (FileID \<Rightarrow> string) \<Rightarrow> File \<Rightarrow> ID list \<Rightarrow> panic + File \<times> Builder" where
  "Serialize IDString FileIDString f order =
     (let b0 = (case file_builder f of None \<Rightarrow> NewBuilder | Some b \<Rightarrow> b)
      in and_then (File_Name f) (\<lambda>name.
         let (b1, fname) = CreateString b0 name
         in and_then (File_TranslationUnit f) (\<lambda>unit.
            let (b2, tu) = CreateByteString b1 unit;
                flagNum = length (file_flags f)
            in and_then (serialize_each (\<lambda>flag b. Inr (CreateString b flag)) (file_flags f) b2)
                 (\<lambda>(b3, flagOffsets).
            let (b4, flagVecOffset) = write_vector b3 flagOffsets flagNum;
                symbols = file_symbols f;
                symbolNum = len_map symbols
            in and_then (serialize_each (Info_serialize IDString) (range_map symbols order) b4)
                 (\<lambda>(b5, symbolOffsets).
            let (b6, symbolVecOffset) = write_vector b5 symbolOffsets symbolNum;
                hdrs = file_headers f;
                hdrNum = length hdrs
            in and_then (serialize_each (Header_serialize FileIDString) hdrs b6)
                 (\<lambda>(b7, hdrOffsets).
            let (b8, headerVecOffset) = write_vector b7 hdrOffsets hdrNum;
                b9 = StartObject b8;
                b10 = symbol_FileAddName b9 fname;
                b11 = symbol_FileAddFlags b10 flagVecOffset;
                b12 = symbol_FileAddTranslationUnit b11 tu;
                b13 = symbol_FileAddSymbols b12 symbolVecOffset;
                b14 = symbol_FileAddHeaders b13 headerVecOffset;
                (b15, end) = EndObject b14;
                b16 = Finish b15 end
            in Inr (f\<lparr>file_builder := Some b16\<rparr>, b16)))))))"

subsection \<open>CompleteItem and CodeCompleteResults\<close>

text \<open>
  \<open>clang.CompletionString\<close> is the sequence of the chunks of one candidate, each with its
  kind (the chunk kinds of libclang) and its text; \<open>clang.CodeCompleteResults\<close> is the
  sequence of the candidates' completion strings.
\<close>

datatype CompletionChunkKind =
  CompletionChunk_Optional
  | CompletionChunk_TypedText
  | CompletionChunk_Text
  | CompletionChunk_Placeholder
  | CompletionChunk_Informative
  | CompletionChunk_CurrentParameter
  | CompletionChunk_LeftParen
  | CompletionChunk_RightParen
  | CompletionChunk_LeftBracket
  | CompletionChunk_RightBracket
  | CompletionChunk_LeftBrace
  | CompletionChunk_RightBrace
  | CompletionChunk_LeftAngle
  | CompletionChunk_RightAngle
  | CompletionChunk_Comma
  | CompletionChunk_ResultType
  | CompletionChunk_Colon
  | CompletionChunk_SemiColon
  | CompletionChunk_Equal
  | CompletionChunk_HorizontalSpace
  | CompletionChunk_VerticalSpace

type_synonym CompletionString = "(CompletionChunkKind \<times> string) list"

type_synonym clang_CodeCompleteResults = "CompletionString list"

definition CompleteItem_Word :: "CompleteItem \<Rightarrow> panic + string" where
  "CompleteItem_Word c =
     (case completeItem_completeItems c of
        None \<Rightarrow> Inl NilPointerDereference
      | Some t \<Rightarrow> symbol_CompleteItem_Word t)"

definition CompleteItem_Abbr :: "CompleteItem \<Rightarrow> panic + string" where
  "CompleteItem_Abbr c =
     (case completeItem_completeItems c of
        None \<Rightarrow> Inl NilPointerDereference
      | Some t \<Rightarrow> symbol_CompleteItem_Abbr t)"

definition CompleteItem_Menu :: "CompleteItem \<Rightarrow> panic + string" where
  "CompleteItem_Menu c =
     (case completeItem_completeItems c of
        None \<Rightarrow> Inl NilPointerDereference
      | Some t \<Rightarrow> symbol_CompleteItem_Menu t)"

definition CompleteItem_Info :: "CompleteItem \<Rightarrow> panic + string" where
  "CompleteItem_Info c =
     (case completeItem_completeItems c of
        None \<Rightarrow> Inl NilPointerDereference
      | Some t \<Rightarrow> symbol_CompleteItem_Info t)"

definition CompleteItem_Kind :: "CompleteItem \<Rightarrow> panic + string" where
  "CompleteItem_Kind c =
     (case completeItem_completeItems c of
        None \<Rightarrow> Inl NilPointerDereference
      | Some t \<Rightarrow> symbol_CompleteItem_Kind t)"

definition CompleteItem_Icase :: "CompleteItem \<Rightarrow> panic + bool" where
  "CompleteItem_Icase c =
     (case completeItem_completeItems c of
        None \<Rightarrow> Inl NilPointerDereference
      | Some t \<Rightarrow> and_then (symbol_CompleteItem_Icase t) (\<lambda>x. Inr (x \<noteq> 0)))"

definition CompleteItem_Dup :: "CompleteItem \<Rightarrow> panic + bool" where
  "CompleteItem_Dup c =
     (case completeItem_completeItems c of
        None \<Rightarrow> Inl NilPointerDereference
      | Some t \<Rightarrow> and_then (symbol_CompleteItem_Dup t) (\<lambda>x. Inr (x \<noteq> 0)))"

text \<open>
  The loop of \<open>Marshal\<close> over the chunks, on the three strings \<open>word\<close>, \<open>typ\<close> and
  \<open>placeholder\<close>.
\<close>

fun chunks :: "CompletionString \<Rightarrow> string \<times> string \<times> string \<Rightarrow> string \<times> string \<times> string" where
  "chunks [] (word, typ, placeholder) = (word, typ, placeholder)"
| "chunks ((kind, text) # cs) (word, typ, placeholder) =
     (case kind of
        CompletionChunk_TypedText \<Rightarrow> chunks cs (word @ text, typ, placeholder @ text)
      | CompletionChunk_ResultType \<Rightarrow> chunks cs (word, typ @ text, placeholder)
      | _ \<Rightarrow> chunks cs (word, typ, placeholder @ text))"

definition CompleteItem_Marshal :: "Builder \<Rightarrow> CompletionString \<Rightarrow> Builder \<times> UOffsetT" where
  "CompleteItem_Marshal builder cs =
     (let (word, typ, placeholder) = chunks cs ([], [], []);
          (b1, uword) = CreateString builder word;
          (b2, uabbr) = CreateString b1 placeholder;
          (b3, umenu) = CreateString b2 [];
          (b4, uinfo) = CreateString b3 placeholder;
          (b5, ukind) = CreateString b4 typ;
          b6 = StartObject b5;
          b7 = symbol_CompleteItemAddWord b6 uword;
          b8 = symbol_CompleteItemAddAbbr b7 uabbr;
          b9 = symbol_CompleteItemAddMenu b8 umenu;
          b10 = symbol_CompleteItemAddInfo b9 uinfo;
          b11 = symbol_CompleteItemAddKind b10 ukind;
          b12 = symbol_CompleteItemAddIcase b11 1;
          b13 = symbol_CompleteItemAddDup b12 1
      in EndObject b13)"

definition NewCodeCompleteResults :: "Table option \<Rightarrow> CodeCompleteResults" where
  "NewCodeCompleteResults v = \<lparr>codeCompleteResults = v\<rparr>"

definition CodeCompleteResults_Results :: "CodeCompleteResults \<Rightarrow> panic + CompleteItem list" where
  "CodeCompleteResults_Results c =
     (case codeCompleteResults c of
        None \<Rightarrow> Inl NilPointerDereference
      | Some t \<Rightarrow>
          and_then (symbol_CodeCompleteResults_ResultsLength t) (\<lambda>n.
            sequence (map (\<lambda>i.
              and_then (symbol_CodeCompleteResults_Results t i) (\<lambda>obj.
                case obj of
                  None \<Rightarrow> Inr zero_CompleteItem
                | Some x \<Rightarrow>
                    and_then (symbol_CompleteItem_Word x) (\<lambda>word.
                    and_then (symbol_CompleteItem_Abbr x) (\<lambda>abbr.
                    and_then (symbol_CompleteItem_Menu x) (\<lambda>menu.
                    and_then (symbol_CompleteItem_Info x) (\<lambda>info.
                    and_then (symbol_CompleteItem_Kind x) (\<lambda>kind.
                      Inr (zero_CompleteItem\<lparr>
                             completeItem_word := word, completeItem_abbr := abbr,
                             completeItem_menu := menu, completeItem_info := info,
                             completeItem_kind := kind, completeItem_icase := True,
                             completeItem_dup := True\<rparr>))))))))
              [0..<n])))"

text \<open>The loop \<open>for i, res := range v.Results() { resultsOffsets[i] = item.Marshal(...) }\<close>.\<close>

fun marshal_results :: "Builder \<Rightarrow> clang_CodeCompleteResults \<Rightarrow> Builder \<times> UOffsetT list" where
  "marshal_results builder [] = (builder, [])"
| "marshal_results builder (res # rs) =
     (let (b1, off) = CompleteItem_Marshal builder res;
          (b2, offs) = marshal_results b1 rs
      in (b2, off # offs))"

definition CodeCompleteResults_Marshal :: "clang_CodeCompleteResults option \<Rightarrow> Builder option" where
  "CodeCompleteResults_Marshal v =
     (case v of
        None \<Rightarrow> None
      | Some v \<Rightarrow>
          (let builder = NewBuilder;
               resultsNum = length v
           in if resultsNum = 0 then Some builder
              else let (b1, resultsOffsets) = marshal_results builder v;
                       (b2, resultsVecOffset) = write_vector b1 resultsOffsets resultsNum;
                       b3 = StartObject b2;
                       b4 = symbol_CodeCompleteResultsAddResults b3 resultsVecOffset;
                       (b5, end) = EndObject b4
                   in Some (Finish b5 end)))"

section \<open>Callers of the package\<close>

text \<open>
  An indexer drives a build-mode \<open>File\<close> through a sequence of mutation calls; a call
  that panics ends the sequence.
\<close>

datatype mutation =
  Call_AddDecl Location
  | Call_AddDefinition Location Location
  | Call_AddCaller Location Location bool
  | Call_AddHeader Time string clang_File
  | Call_AddTranslationUnit string

fun mutate :: "(string \<Rightarrow> ID) \<Rightarrow> (string \<Rightarrow> FileID) \<Rightarrow> File \<Rightarrow> mutation \<Rightarrow> panic + File" where
  "mutate ToID ToFileID f (Call_AddDecl loc) = AddDecl ToID f loc"
| "mutate ToID ToFileID f (Call_AddDefinition loc defn) = AddDefinition ToID f loc defn"
| "mutate ToID ToFileID f (Call_AddCaller symb defn funcCall) = AddCaller ToID f symb defn funcCall"
| "mutate ToID ToFileID f (Call_AddHeader now includePath headerFile) =
     Inr (AddHeader ToFileID now f includePath headerFile)"
| "mutate ToID ToFileID f (Call_AddTranslationUnit buf) = Inr (AddTranslationUnit f buf)"

fun mutate_all ::
  "(string \<Rightarrow> ID) \<Rightarrow> (string \<Rightarrow> FileID) \<Rightarrow> File \<Rightarrow> mutation list \<Rightarrow> panic + File" where
  "mutate_all ToID ToFileID f [] = Inr f"
| "mutate_all ToID ToFileID f (m # ms) =
     and_then (mutate ToID ToFileID f m) (\<lambda>f'. mutate_all ToID ToFileID f' ms)"

text \<open>
  The receiver of a builder takes its finished bytes and opens them at the root: as a
  \<open>File\<close> in view mode, or as the \<open>Results\<close> of a \<open>CodeCompleteResults\<close>.
\<close>

definition decode_File :: "Builder \<Rightarrow> panic + File" where
  "decode_File builder = and_then (FinishedBytes builder) (\<lambda>buf. Inr (GetRootAsFile buf))"

definition decode_Results :: "Builder option \<Rightarrow> panic + CompleteItem list" where
  "decode_Results builder =
     (case builder of
        None \<Rightarrow> Inl NilPointerDereference
      | Some b \<Rightarrow>
          and_then (FinishedBytes b) (\<lambda>buf.
            CodeCompleteResults_Results (NewCodeCompleteResults (Some (GetRootAs buf)))))"

text \<open>
  The item that section 4.5 of the spec describes for the chunks of one candidate: the
  typed-text chunks make the word, the result-type chunks the kind, every chunk but the
  result-type ones the abbreviation and the info; the menu is empty and both flags are set.
\<close>

definition converted :: "CompletionString \<Rightarrow> CompleteItem" where
  "converted cs =
     \<lparr>completeItem_word = concat (map snd (filter (\<lambda>c. fst c = CompletionChunk_TypedText) cs)),
      completeItem_abbr = concat (map snd (filter (\<lambda>c. fst c \<noteq> CompletionChunk_ResultType) cs)),
      completeItem_menu = [],
      completeItem_info = concat (map snd (filter (\<lambda>c. fst c \<noteq> CompletionChunk_ResultType) cs)),
      completeItem_kind = concat (map snd (filter (\<lambda>c. fst c = CompletionChunk_ResultType) cs)),
      completeItem_icase = True, completeItem_dup = True, completeItem_completeItems = None\<rparr>"

text \<open>What \<open>Results\<close> reads of the item at an offset of a buffer.\<close>

definition read_item :: "fb_object list \<Rightarrow> UOffsetT \<Rightarrow> panic + CompleteItem" where
  "read_item objs off =
     (let x = \<lparr>Table_Bytes = objs, Pos = off\<rparr>
      in and_then (symbol_CompleteItem_Word x) (\<lambda>word.
         and_then (symbol_CompleteItem_Abbr x) (\<lambda>abbr.
         and_then (symbol_CompleteItem_Menu x) (\<lambda>menu.
         and_then (symbol_CompleteItem_Info x) (\<lambda>info.
         and_then (symbol_CompleteItem_Kind x) (\<lambda>kind.
           Inr (zero_CompleteItem\<lparr>
                  completeItem_word := word, completeItem_abbr := abbr,
                  completeItem_menu := menu, completeItem_info := info,
                  completeItem_kind := kind, completeItem_icase := True,
                  completeItem_dup := True\<rparr>)))))))"

section \<open>What a reader observes of an entity\<close>

text \<open>
  A reader observes an entity through its accessors: \<open>observe_X\<close> calls every accessor of
  an \<open>X\<close> (and of the entities under it) and collects what they return. \<open>view_X objs off\<close>
  is the view-mode \<open>X\<close> on the table at offset \<open>off\<close> of the buffer \<open>objs\<close>, and
  \<open>stored_X\<close> is what \<open>serialize\<close> stores of a build-mode \<open>X\<close>: its fields, with the ID
  written as a string and hashed again by the accessor that reads it.
\<close>

definition observe_Location :: "Location \<Rightarrow> panic + Location" where
  "observe_Location l =
     and_then (Location_FileName l) (\<lambda>fileName.
     and_then (Location_Line l) (\<lambda>line.
     and_then (Location_Col l) (\<lambda>col.
     and_then (Location_Offset l) (\<lambda>offset.
     and_then (Location_USR l) (\<lambda>usr.
       Inr \<lparr>location_fileName = fileName, location_line = line, location_col = col,
            location_offset = offset, location_usr = usr, location_location = None\<rparr>)))))"

definition stored_Location :: "Location \<Rightarrow> Location" where
  "stored_Location l = l\<lparr>location_location := None\<rparr>"

definition view_Location :: "fb_object list \<Rightarrow> UOffsetT \<Rightarrow> Location" where
  "view_Location objs off =
     zero_Location\<lparr>location_location := Some \<lparr>Table_Bytes = objs, Pos = off\<rparr>\<rparr>"

definition stored_Caller :: "Caller \<Rightarrow> Caller" where
  "stored_Caller c =
     \<lparr>caller_location = stored_Location (caller_location c),
      caller_funcCall = caller_funcCall c, caller_caller = None\<rparr>"

definition observe_Caller :: "Caller option \<Rightarrow> panic + Caller" where
  "observe_Caller c =
     (case c of
        None \<Rightarrow> Inl NilPointerDereference
      | Some c \<Rightarrow>
          and_then (Caller_Location c) (\<lambda>l.
          and_then (observe_Location l) (\<lambda>location.
          and_then (Caller_FuncCall c) (\<lambda>funcCall.
            Inr \<lparr>caller_location = location, caller_funcCall = funcCall,
                 caller_caller = None\<rparr>))))"

definition view_Caller :: "fb_object list \<Rightarrow> UOffsetT \<Rightarrow> Caller option" where
  "view_Caller objs off =
     Some (zero_Caller\<lparr>caller_caller := Some \<lparr>Table_Bytes = objs, Pos = off\<rparr>\<rparr>)"

definition observe_Header :: "(string \<Rightarrow> FileID) \<Rightarrow> Header option \<Rightarrow> panic + FileID \<times> 64 word" where
  "observe_Header ToFileID h =
     (case h of
        None \<Rightarrow> Inl NilPointerDereference
      | Some h \<Rightarrow>
          and_then (Header_FileID ToFileID h) (\<lambda>fileid.
          and_then (Header_Mtime h) (\<lambda>mtime. Inr (fileid, mtime))))"

definition stored_Header ::
  "(string \<Rightarrow> FileID) \<Rightarrow> (FileID \<Rightarrow> string) \<Rightarrow> Header option \<Rightarrow> FileID \<times> 64 word" where
  "stored_Header ToFileID FileIDString h =
     (case h of
        None \<Rightarrow> ([], 0)
      | Some h \<Rightarrow> (ToFileID (FileIDString (header_fileid h)), Time_Unix (header_mtime h)))"

definition view_Header :: "fb_object list \<Rightarrow> UOffsetT \<Rightarrow> Header option" where
  "view_Header objs off =
     Some (zero_Header\<lparr>header_header := Some \<lparr>Table_Bytes = objs, Pos = off\<rparr>\<rparr>)"

definition stored_Info :: "(string \<Rightarrow> ID) \<Rightarrow> (ID \<Rightarrow> string) \<Rightarrow> Info \<Rightarrow> Info" where
  "stored_Info ToID IDString i =
     \<lparr>info_id = ToID (IDString (info_id i)),
      info_decls = map stored_Location (info_decls i),
      info_def = stored_Location (info_def i),
      info_callers = map (map_option stored_Caller) (info_callers i),
      info_info = None\<rparr>"

definition observe_Info :: "(string \<Rightarrow> ID) \<Rightarrow> Info option \<Rightarrow> panic + Info" where
  "observe_Info ToID s =
     (case s of
        None \<Rightarrow> Inl NilPointerDereference
      | Some s \<Rightarrow>
          and_then (Info_ID ToID s) (\<lambda>id.
          and_then (Info_Decls s) (\<lambda>ds.
          and_then (sequence (map observe_Location ds)) (\<lambda>decls.
          and_then (Info_Def s) (\<lambda>d.
          and_then (observe_Location d) (\<lambda>defn.
          and_then (Info_Callers s) (\<lambda>cs.
          and_then (sequence (map observe_Caller cs)) (\<lambda>callers.
            Inr \<lparr>info_id = id, info_decls = decls, info_def = defn,
                 info_callers = map Some callers, info_info = None\<rparr>))))))))"

definition view_Info :: "fb_object list \<Rightarrow> UOffsetT \<Rightarrow> Info option" where
  "view_Info objs off = Some (zero_Info\<lparr>info_info := Some \<lparr>Table_Bytes = objs, Pos = off\<rparr>\<rparr>)"

definition observe_File ::
  "(string \<Rightarrow> ID) \<Rightarrow> (string \<Rightarrow> FileID) \<Rightarrow> File
   \<Rightarrow> panic + string \<times> string list \<times> string \<times> Info list \<times> (FileID \<times> 64 word) list" where
  "observe_File ToID ToFileID f =
     and_then (File_Name f) (\<lambda>name.
     and_then (File_Flags f) (\<lambda>flags.
     and_then (File_TranslationUnit f) (\<lambda>tu.
     and_then (File_Symbols f []) (\<lambda>ss.
     and_then (sequence (map (observe_Info ToID) ss)) (\<lambda>symbols.
     and_then (File_Headers f) (\<lambda>hs.
     and_then (sequence (map (observe_Header ToFileID) hs)) (\<lambda>headers.
       Inr (name, flags, tu, symbols, headers))))))))"

definition read_bytes :: "fb_object list \<Rightarrow> UOffsetT \<Rightarrow> panic + string" where
  "read_bytes objs p =
     (case fb_get objs p of Some (FBBytes s) \<Rightarrow> Inr s | _ \<Rightarrow> Inl IndexOutOfRange)"

section \<open>The two indexes of a build-mode File\<close>




section \<open>Facts about the builder and the reader\<close>

lemmas builder_defs =
  write_object_def CreateString_def CreateByteString_def StartVector_def PrependUOffsetT_def
  EndVector_def StartObject_def Slot_def PrependUOffsetTSlot_def PrependUint32Slot_def
  PrependInt64Slot_def PrependByteSlot_def EndObject_def Finish_def NewBuilder_def

lemmas reader_defs =
  fb_get_def Table_Offset_def Table_String_def Table_Uint32_def Table_Int64_def Table_Byte_def
  Table_Vector_def Table_VectorLen_def Table_Indirect_def Table_VectorElem_def
  Table_VectorTable_def Table_VectorString_def and_then_def

lemma prepend_offsets_fields:
  "n \<le> length offsets \<Longrightarrow>
   vector (prepend_offsets b offsets n) = take n offsets @ vector b
   \<and> Bytes (prepend_offsets b offsets n) = Bytes b
   \<and> object (prepend_offsets b offsets n) = object b
   \<and> finished (prepend_offsets b offsets n) = finished b"
proof (induction n arbitrary: b)
  case 0
  show ?case by simp
next
  case (Suc n)
  then show ?case
    by (simp add: PrependUOffsetT_def take_Suc_conv_app_nth)
qed

lemma write_vector_fields:
  "write_vector b offsets (length offsets)
   = (b\<lparr>Bytes := Bytes b @ [FBVector offsets], vector := []\<rparr>, Suc (length (Bytes b)))"
  using prepend_offsets_fields [of "length offsets" offsets "StartVector b (length offsets)"]
  by (simp add: write_vector_def EndVector_def write_object_def StartVector_def)

lemma sequence_map_Inr:
  "(\<And>x. x \<in> set xs \<Longrightarrow> f x = Inr (g x)) \<Longrightarrow> sequence (map f xs) = Inr (map g xs)"
  by (induction xs) (simp_all add: and_then_def)

section \<open>The exists predicate and the merge of declarations and definitions\<close>

lemma isExist_always: "isExist l"
  by (simp add: isExist_def)

lemma isExist_draft_iff: "isExist_draft l \<longleftrightarrow> l \<noteq> zero_Location"
  by (simp add: isExist_draft_def)

lemma isExist_draft_fields:
  "isExist_draft l \<longleftrightarrow>
     (location_fileName l \<noteq> [] \<or> location_line l \<noteq> 0 \<or> location_col l \<noteq> 0
      \<or> location_offset l \<noteq> 0 \<or> location_usr l \<noteq> [] \<or> location_location l \<noteq> None)"
  by (cases l) (auto simp add: isExist_draft_def zero_Location_def)

text \<open>
  C2. On a \<open>File\<close> whose two maps are made, \<open>AddDefinition(loc, def1)\<close> and then
  \<open>AddDefinition(loc2, def2)\<close>, with the USR \<open>u\<close> in \<open>loc\<close> and in \<open>loc2\<close> and both
  definitions existing, both return, and the table then holds under the ID of \<open>u\<close> one
  \<open>Info\<close> whose \<open>Def\<close> is \<open>def2\<close> and whose \<open>Decls\<close> are the ones it had before followed by
  \<open>loc\<close> and \<open>loc2\<close>; its ID and its callers are what they were (the ID of \<open>u\<close> and none
  when the symbol is new), and no other key of the table changes.
\<close>

theorem AddDefinition_overwrite:
  assumes "file_locations f = Some locations" and "file_symbols f = Some symbols"
    and "location_usr loc = u" and "location_usr loc2 = u"
    and "isExist def1" and "isExist def2"
  shows "\<exists>f1 f2 info.
           AddDefinition ToID f loc def1 = Inr f1
           \<and> AddDefinition ToID f1 loc2 def2 = Inr f2
           \<and> index_map (file_symbols f2) (ToID u) = Some info
           \<and> info_def info = def2
           \<and> info_decls info
               = (case symbols (ToID u) of None \<Rightarrow> [] | Some old \<Rightarrow> info_decls old) @ [loc, loc2]
           \<and> info_id info = (case symbols (ToID u) of None \<Rightarrow> ToID u | Some old \<Rightarrow> info_id old)
           \<and> info_callers info
               = (case symbols (ToID u) of None \<Rightarrow> [] | Some old \<Rightarrow> info_callers old)
           \<and> (\<forall>k. k \<noteq> ToID u \<longrightarrow> index_map (file_symbols f2) k = symbols k)"
  using assms
  by (simp add: AddDefinition_def addSymbol_def index_map_def zero_Info_def Let_def
      split: option.split)

theorem AddDefinition_overwrite_witness:
  "\<exists>f1 f2 info.
     AddDefinition (\<lambda>s. ''id:'' @ s) (NewFile ''a.c'' [])
       (zero_Location\<lparr>location_fileName := ''a.h'', location_line := 3, location_usr := ''c:@F@f''\<rparr>)
       (zero_Location\<lparr>location_fileName := ''a.c'', location_line := 10, location_usr := ''c:@F@f''\<rparr>)
       = Inr f1
     \<and> AddDefinition (\<lambda>s. ''id:'' @ s) f1
       (zero_Location\<lparr>location_fileName := ''b.h'', location_line := 7, location_usr := ''c:@F@f''\<rparr>)
       (zero_Location\<lparr>location_fileName := ''b.c'', location_line := 20, location_usr := ''c:@F@f''\<rparr>)
       = Inr f2
     \<and> index_map (file_symbols f2) ''id:c:@F@f'' = Some info
     \<and> info_def info
         = zero_Location\<lparr>location_fileName := ''b.c'', location_line := 20, location_usr := ''c:@F@f''\<rparr>
     \<and> info_decls info
         = [zero_Location\<lparr>location_fileName := ''a.h'', location_line := 3, location_usr := ''c:@F@f''\<rparr>,
            zero_Location\<lparr>location_fileName := ''b.h'', location_line := 7, location_usr := ''c:@F@f''\<rparr>]"
  using AddDefinition_overwrite [of "NewFile ''a.c'' []" Map.empty Map.empty
      "zero_Location\<lparr>location_fileName := ''a.h'', location_line := 3, location_usr := ''c:@F@f''\<rparr>"
      "''c:@F@f''"
      "zero_Location\<lparr>location_fileName := ''b.h'', location_line := 7, location_usr := ''c:@F@f''\<rparr>"
      "zero_Location\<lparr>location_fileName := ''a.c'', location_line := 10, location_usr := ''c:@F@f''\<rparr>"
      "zero_Location\<lparr>location_fileName := ''b.c'', location_line := 20, location_usr := ''c:@F@f''\<rparr>"
      "\<lambda>s. ''id:'' @ s"]
  by (simp add: NewFile_def zero_File_def isExist_def) blast

text \<open>
  The same in the other draft, where the definitions must exist in the sense of
  \<open>isExist_draft\<close>: some field differs from its zero value.
\<close>

lemma AddDefinition_draft_overwrite:
  assumes "file_locations f = Some locations" and "file_symbols f = Some symbols"
    and "location_usr loc = u" and "location_usr loc2 = u"
    and "isExist_draft def2"
  shows "\<exists>f1 f2 info.
           AddDefinition_draft ToID f loc def1 = Inr f1
           \<and> AddDefinition_draft ToID f1 loc2 def2 = Inr f2
           \<and> index_map (file_symbols f2) (ToID u) = Some info
           \<and> info_def info = def2
           \<and> info_decls info
               = (case symbols (ToID u) of None \<Rightarrow> [] | Some old \<Rightarrow> info_decls old) @ [loc, loc2]"
  using assms
  by (simp add: AddDefinition_draft_def addSymbol_draft_def index_map_def zero_Info_def Let_def
      split: option.split)

text \<open>
  C3. In \<open>type.go\<close> the exists predicate holds for the all-zero \<open>Location\<close> as for every
  other one: \<open>isExist\<close> compares the pointer \<open>l\<close> with the value \<open>Location{}\<close>, which are of
  distinct types. So \<open>AddDecl\<close>, after an \<open>AddDefinition\<close> for the same USR, replaces the
  \<open>Def\<close> of the \<open>Info\<close> by the all-zero \<open>Location\<close>. In the other draft, whose \<open>isExist\<close>
  compares two values, the predicate is false on the all-zero \<open>Location\<close> and \<open>AddDecl\<close>
  keeps the \<open>Def\<close>.
\<close>

theorem AddDecl_overwrites_Def:
  "isExist zero_Location
   \<and> \<not> isExist_draft zero_Location
   \<and> (\<exists>f1 f2 info.
         AddDefinition ToID (NewFile ''a.c'' [])
           (zero_Location\<lparr>location_fileName := ''a.c'', location_line := 1, location_usr := ''c:@F@f''\<rparr>)
           (zero_Location\<lparr>location_fileName := ''a.c'', location_line := 10, location_usr := ''c:@F@f''\<rparr>)
           = Inr f1
         \<and> AddDecl ToID f1
             (zero_Location\<lparr>location_fileName := ''a.h'', location_line := 2, location_usr := ''c:@F@f''\<rparr>)
             = Inr f2
         \<and> index_map (file_symbols f1) (ToID ''c:@F@f'') = Some info
         \<and> info_def info
             = zero_Location\<lparr>location_fileName := ''a.c'', location_line := 10, location_usr := ''c:@F@f''\<rparr>
         \<and> map_option info_def (index_map (file_symbols f2) (ToID ''c:@F@f'')) = Some zero_Location)
   \<and> (\<exists>f1 f2.
         AddDefinition_draft ToID (NewFile ''a.c'' [])
           (zero_Location\<lparr>location_fileName := ''a.c'', location_line := 1, location_usr := ''c:@F@f''\<rparr>)
           (zero_Location\<lparr>location_fileName := ''a.c'', location_line := 10, location_usr := ''c:@F@f''\<rparr>)
           = Inr f1
         \<and> AddDecl_draft ToID f1
             (zero_Location\<lparr>location_fileName := ''a.h'', location_line := 2, location_usr := ''c:@F@f''\<rparr>)
             = Inr f2
         \<and> map_option info_def (index_map (file_symbols f2) (ToID ''c:@F@f''))
             = Some (zero_Location\<lparr>location_fileName := ''a.c'', location_line := 10,
                                    location_usr := ''c:@F@f''\<rparr>))"
  by (simp add: isExist_def isExist_draft_def AddDefinition_def AddDecl_def addSymbol_def
      AddDefinition_draft_def AddDecl_draft_def addSymbol_draft_def
      NewFile_def zero_File_def index_map_def zero_Info_def zero_Location_def Let_def)

section \<open>Callers\<close>

text \<open>
  C5. On a \<open>File\<close> whose symbol table is made, \<open>AddCaller(sym, def, funcCall)\<close> returns.
  When the table had no \<open>Info\<close> under the ID of the USR of \<open>sym\<close>, it then has one there,
  with that ID, no \<open>Decls\<close>, the all-zero \<open>Def\<close> and the one caller \<open>sym\<close> with the flag
  \<open>funcCall\<close>. Every \<open>Info\<close> of the table keeps its \<open>Decls\<close> and its \<open>Def\<close>, every other key
  keeps its \<open>Info\<close>, and the index of locations is the one before the call.
\<close>

theorem AddCaller_before_decl:
  assumes "file_symbols f = Some symbols"
  shows "\<exists>f'. AddCaller ToID f symb defn funcCall = Inr f'
           \<and> (symbols (ToID (location_usr symb)) = None \<longrightarrow>
                index_map (file_symbols f') (ToID (location_usr symb))
                = Some \<lparr>info_id = ToID (location_usr symb), info_decls = [],
                        info_def = zero_Location,
                        info_callers = [Some \<lparr>caller_location = symb, caller_funcCall = funcCall,
                                              caller_caller = None\<rparr>],
                        info_info = None\<rparr>)
           \<and> (\<forall>k info. symbols k = Some info \<longrightarrow>
                 (\<exists>info'. index_map (file_symbols f') k = Some info'
                    \<and> info_decls info' = info_decls info \<and> info_def info' = info_def info))
           \<and> (\<forall>k. k \<noteq> ToID (location_usr symb) \<longrightarrow> index_map (file_symbols f') k = symbols k)
           \<and> file_locations f' = file_locations f"
  using assms
  by (simp add: AddCaller_def index_map_def zero_Info_def zero_Caller_def Let_def
      split: option.split)

theorem AddCaller_before_decl_witness:
  "\<exists>f'. AddCaller (\<lambda>s. ''id:'' @ s) (NewFile ''a.c'' [])
           (zero_Location\<lparr>location_fileName := ''a.c'', location_line := 4, location_usr := ''c:@F@g''\<rparr>)
           zero_Location True = Inr f'
        \<and> index_map (file_symbols f') ''id:c:@F@g''
          = Some \<lparr>info_id = ''id:c:@F@g'', info_decls = [], info_def = zero_Location,
                  info_callers =
                    [Some \<lparr>caller_location =
                             zero_Location\<lparr>location_fileName := ''a.c'', location_line := 4,
                                           location_usr := ''c:@F@g''\<rparr>,
                           caller_funcCall = True, caller_caller = None\<rparr>],
                  info_info = None\<rparr>"
  using AddCaller_before_decl [of "NewFile ''a.c'' []" Map.empty "\<lambda>s. ''id:'' @ s"
      "zero_Location\<lparr>location_fileName := ''a.c'', location_line := 4, location_usr := ''c:@F@g''\<rparr>"
      zero_Location True]
  by (simp add: NewFile_def zero_File_def) blast

section \<open>Headers\<close>

lemma Clean_empty: "filepath_Clean [] = ''.''"
  by (simp add: filepath_Clean_def)

lemma Base_dot: "filepath_Base ''.'' = ''.''"
  by (simp add: filepath_Base_def)

lemma sentinel_empty_name: "notExistHeaderName (filepath_Clean []) = ''IDoNotReallyExist-.''"
  by (simp add: notExistHeaderName_def Clean_empty Base_dot)

lemma Clean_example: "filepath_Clean ''/usr/include/../include/stdio.h'' = ''/usr/include/stdio.h''"
  by code_simp

lemma Base_builtin: "filepath_Base ''/usr/lib/clang/include/builtin.h'' = ''builtin.h''"
  by code_simp

text \<open>
  C4. The sentence does not hold of \<open>AddHeader\<close> for a header whose name is empty.
  \<open>AddHeader\<close> never reads its \<open>includePath\<close> argument: what it hands to
  \<open>notExistHeaderName\<close> is the cleaned name of the header handle, and the name being empty
  that is \<open>"."\<close>. So the header added for the include path
  \<open>/usr/lib/clang/include/builtin.h\<close> has the \<open>FileID\<close> hashed from
  \<open>"IDoNotReallyExist-."\<close>, not from \<open>"IDoNotReallyExist-builtin.h"\<close>, which is what
  \<open>notExistHeaderName\<close> gives for that path; and the call with any other include path
  adds the same header, so two headers without a name share one \<open>FileID\<close>. The time is the
  wall-clock time of the call, as the sentence says. For a header with a name the sentence
  holds: the \<open>FileID\<close> is hashed from the cleaned name and the time is the handle's.
\<close>

theorem AddHeader_ignores_includePath:
  "AddHeader ToFileID now f ''/usr/lib/clang/include/builtin.h''
       \<lparr>clang_File_Name = [], clang_File_Time = t\<rparr>
     = f\<lparr>file_headers := file_headers f
            @ [Some \<lparr>header_fileid = ToFileID ''IDoNotReallyExist-.'', header_mtime = now,
                      header_header = None\<rparr>]\<rparr>
   \<and> notExistHeaderName ''/usr/lib/clang/include/builtin.h'' = ''IDoNotReallyExist-builtin.h''
   \<and> ''IDoNotReallyExist-.'' \<noteq> ''IDoNotReallyExist-builtin.h''
   \<and> AddHeader ToFileID now f includePath \<lparr>clang_File_Name = [], clang_File_Time = t\<rparr>
     = AddHeader ToFileID now f ''/usr/lib/clang/include/builtin.h''
         \<lparr>clang_File_Name = [], clang_File_Time = t\<rparr>
   \<and> AddHeader ToFileID now f ''stdio.h''
       \<lparr>clang_File_Name = ''/usr/include/../include/stdio.h'', clang_File_Time = t\<rparr>
     = f\<lparr>file_headers := file_headers f
            @ [Some \<lparr>header_fileid = ToFileID ''/usr/include/stdio.h'', header_mtime = t,
                      header_header = None\<rparr>]\<rparr>"
  by (simp add: AddHeader_def Let_def zero_Header_def notExistHeaderName_def Clean_empty
      Base_dot Clean_example Base_builtin)

section \<open>Completion candidates\<close>

lemma chunks_concat:
  "chunks cs (w, t, p) =
     (w @ concat (map snd (filter (\<lambda>c. fst c = CompletionChunk_TypedText) cs)),
      t @ concat (map snd (filter (\<lambda>c. fst c = CompletionChunk_ResultType) cs)),
      p @ concat (map snd (filter (\<lambda>c. fst c \<noteq> CompletionChunk_ResultType) cs)))"
proof (induction cs arbitrary: w t p)
  case Nil
  show ?case by simp
next
  case (Cons c cs)
  obtain k s where c: "c = (k, s)"
    by (cases c)
  show ?case
    unfolding c by (cases k) (simp_all add: Cons.IH)
qed

lemmas CompleteItem_defs =
  symbol_CompleteItem_Word_def symbol_CompleteItem_Abbr_def symbol_CompleteItem_Menu_def
  symbol_CompleteItem_Info_def symbol_CompleteItem_Kind_def symbol_CompleteItem_Icase_def
  symbol_CompleteItem_Dup_def symbol_CompleteItemAddWord_def symbol_CompleteItemAddAbbr_def
  symbol_CompleteItemAddMenu_def symbol_CompleteItemAddInfo_def symbol_CompleteItemAddKind_def
  symbol_CompleteItemAddIcase_def symbol_CompleteItemAddDup_def
  CompleteItem_Word_def CompleteItem_Abbr_def CompleteItem_Menu_def CompleteItem_Info_def
  CompleteItem_Kind_def CompleteItem_Icase_def CompleteItem_Dup_def

text \<open>
  C6. For every builder and every sequence of chunks, the item that \<open>Marshal\<close> writes, read
  back through the accessors of \<open>CompleteItem\<close>, has as its word the texts of the typed-text
  chunks in order, as its kind the texts of the result-type chunks, as its abbreviation and
  its info the texts of all the chunks that are not result-type chunks, an empty menu, and
  both flags set.
\<close>

theorem CompleteItem_Marshal_fields:
  fixes builder :: Builder and cs :: CompletionString
  defines "item \<equiv> zero_CompleteItem\<lparr>completeItem_completeItems :=
                     Some \<lparr>Table_Bytes = Bytes (fst (CompleteItem_Marshal builder cs)),
                           Pos = snd (CompleteItem_Marshal builder cs)\<rparr>\<rparr>"
  shows "CompleteItem_Word item
           = Inr (concat (map snd (filter (\<lambda>c. fst c = CompletionChunk_TypedText) cs)))
         \<and> CompleteItem_Kind item
           = Inr (concat (map snd (filter (\<lambda>c. fst c = CompletionChunk_ResultType) cs)))
         \<and> CompleteItem_Abbr item
           = Inr (concat (map snd (filter (\<lambda>c. fst c \<noteq> CompletionChunk_ResultType) cs)))
         \<and> CompleteItem_Info item
           = Inr (concat (map snd (filter (\<lambda>c. fst c \<noteq> CompletionChunk_ResultType) cs)))
         \<and> CompleteItem_Menu item = Inr []
         \<and> CompleteItem_Icase item = Inr True
         \<and> CompleteItem_Dup item = Inr True"
  unfolding item_def
  by (simp add: CompleteItem_Marshal_def chunks_concat builder_defs reader_defs
      CompleteItem_defs zero_CompleteItem_def nth_append)

theorem CompleteItem_Marshal_example:
  "CompleteItem_Word (zero_CompleteItem\<lparr>completeItem_completeItems :=
       Some \<lparr>Table_Bytes = Bytes (fst (CompleteItem_Marshal NewBuilder
                 [(CompletionChunk_TypedText, ''foo''), (CompletionChunk_ResultType, ''int''),
                  (CompletionChunk_HorizontalSpace, '' '')])),
             Pos = snd (CompleteItem_Marshal NewBuilder
                 [(CompletionChunk_TypedText, ''foo''), (CompletionChunk_ResultType, ''int''),
                  (CompletionChunk_HorizontalSpace, '' '')])\<rparr>\<rparr>) = Inr ''foo''
   \<and> CompleteItem_Kind (zero_CompleteItem\<lparr>completeItem_completeItems :=
       Some \<lparr>Table_Bytes = Bytes (fst (CompleteItem_Marshal NewBuilder
                 [(CompletionChunk_TypedText, ''foo''), (CompletionChunk_ResultType, ''int''),
                  (CompletionChunk_HorizontalSpace, '' '')])),
             Pos = snd (CompleteItem_Marshal NewBuilder
                 [(CompletionChunk_TypedText, ''foo''), (CompletionChunk_ResultType, ''int''),
                  (CompletionChunk_HorizontalSpace, '' '')])\<rparr>\<rparr>) = Inr ''int''
   \<and> CompleteItem_Abbr (zero_CompleteItem\<lparr>completeItem_completeItems :=
       Some \<lparr>Table_Bytes = Bytes (fst (CompleteItem_Marshal NewBuilder
                 [(CompletionChunk_TypedText, ''foo''), (CompletionChunk_ResultType, ''int''),
                  (CompletionChunk_HorizontalSpace, '' '')])),
             Pos = snd (CompleteItem_Marshal NewBuilder
                 [(CompletionChunk_TypedText, ''foo''), (CompletionChunk_ResultType, ''int''),
                  (CompletionChunk_HorizontalSpace, '' '')])\<rparr>\<rparr>) = Inr ''foo ''
   \<and> CompleteItem_Info (zero_CompleteItem\<lparr>completeItem_completeItems :=
       Some \<lparr>Table_Bytes = Bytes (fst (CompleteItem_Marshal NewBuilder
                 [(CompletionChunk_TypedText, ''foo''), (CompletionChunk_ResultType, ''int''),
                  (CompletionChunk_HorizontalSpace, '' '')])),
             Pos = snd (CompleteItem_Marshal NewBuilder
                 [(CompletionChunk_TypedText, ''foo''), (CompletionChunk_ResultType, ''int''),
                  (CompletionChunk_HorizontalSpace, '' '')])\<rparr>\<rparr>) = Inr ''foo ''
   \<and> CompleteItem_Menu (zero_CompleteItem\<lparr>completeItem_completeItems :=
       Some \<lparr>Table_Bytes = Bytes (fst (CompleteItem_Marshal NewBuilder
                 [(CompletionChunk_TypedText, ''foo''), (CompletionChunk_ResultType, ''int''),
                  (CompletionChunk_HorizontalSpace, '' '')])),
             Pos = snd (CompleteItem_Marshal NewBuilder
                 [(CompletionChunk_TypedText, ''foo''), (CompletionChunk_ResultType, ''int''),
                  (CompletionChunk_HorizontalSpace, '' '')])\<rparr>\<rparr>) = Inr []
   \<and> CompleteItem_Icase (zero_CompleteItem\<lparr>completeItem_completeItems :=
       Some \<lparr>Table_Bytes = Bytes (fst (CompleteItem_Marshal NewBuilder
                 [(CompletionChunk_TypedText, ''foo''), (CompletionChunk_ResultType, ''int''),
                  (CompletionChunk_HorizontalSpace, '' '')])),
             Pos = snd (CompleteItem_Marshal NewBuilder
                 [(CompletionChunk_TypedText, ''foo''), (CompletionChunk_ResultType, ''int''),
                  (CompletionChunk_HorizontalSpace, '' '')])\<rparr>\<rparr>) = Inr True
   \<and> CompleteItem_Dup (zero_CompleteItem\<lparr>completeItem_completeItems :=
       Some \<lparr>Table_Bytes = Bytes (fst (CompleteItem_Marshal NewBuilder
                 [(CompletionChunk_TypedText, ''foo''), (CompletionChunk_ResultType, ''int''),
                  (CompletionChunk_HorizontalSpace, '' '')])),
             Pos = snd (CompleteItem_Marshal NewBuilder
                 [(CompletionChunk_TypedText, ''foo''), (CompletionChunk_ResultType, ''int''),
                  (CompletionChunk_HorizontalSpace, '' '')])\<rparr>\<rparr>) = Inr True"
  using CompleteItem_Marshal_fields [of NewBuilder
      "[(CompletionChunk_TypedText, ''foo''), (CompletionChunk_ResultType, ''int''),
        (CompletionChunk_HorizontalSpace, '' '')]"]
  by simp

lemma CompleteItem_Marshal_read:
  "\<exists>more. Bytes (fst (CompleteItem_Marshal b cs)) = Bytes b @ more
     \<and> vector (fst (CompleteItem_Marshal b cs)) = vector b
     \<and> finished (fst (CompleteItem_Marshal b cs)) = finished b
     \<and> (\<forall>ext. read_item (Bytes (fst (CompleteItem_Marshal b cs)) @ ext)
                  (snd (CompleteItem_Marshal b cs)) = Inr (converted cs))"
  by (simp add: CompleteItem_Marshal_def chunks_concat builder_defs reader_defs
      CompleteItem_defs zero_CompleteItem_def nth_append read_item_def converted_def)

lemma marshal_results_read:
  "\<exists>more. Bytes (fst (marshal_results b v)) = Bytes b @ more
     \<and> vector (fst (marshal_results b v)) = vector b
     \<and> finished (fst (marshal_results b v)) = finished b
     \<and> length (snd (marshal_results b v)) = length v
     \<and> (\<forall>i < length v. \<forall>ext.
           read_item (Bytes (fst (marshal_results b v)) @ ext) (snd (marshal_results b v) ! i)
           = Inr (converted (v ! i)))"
proof (induction v arbitrary: b)
  case Nil
  show ?case by simp
next
  case (Cons res rs)
  obtain b1 off where m: "CompleteItem_Marshal b res = (b1, off)"
    by (cases "CompleteItem_Marshal b res")
  obtain b2 offs where r: "marshal_results b1 rs = (b2, offs)"
    by (cases "marshal_results b1 rs")
  have "\<exists>more. Bytes b1 = Bytes b @ more \<and> vector b1 = vector b \<and> finished b1 = finished b
           \<and> (\<forall>ext. read_item (Bytes b1 @ ext) off = Inr (converted res))"
    using CompleteItem_Marshal_read [of b res] by (simp add: m)
  then obtain more1 where 1: "Bytes b1 = Bytes b @ more1" "vector b1 = vector b"
      "finished b1 = finished b"
      "\<And>ext. read_item (Bytes b1 @ ext) off = Inr (converted res)"
    by blast
  have "\<exists>more. Bytes b2 = Bytes b1 @ more \<and> vector b2 = vector b1 \<and> finished b2 = finished b1
           \<and> length offs = length rs
           \<and> (\<forall>i < length rs. \<forall>ext. read_item (Bytes b2 @ ext) (offs ! i) = Inr (converted (rs ! i)))"
    using Cons.IH [of b1] by (simp add: r)
  then obtain more2 where 2: "Bytes b2 = Bytes b1 @ more2" "vector b2 = vector b1"
      "finished b2 = finished b1" "length offs = length rs"
      "\<And>i ext. i < length rs \<Longrightarrow> read_item (Bytes b2 @ ext) (offs ! i) = Inr (converted (rs ! i))"
    by blast
  have 3: "read_item (Bytes b2 @ ext) ((off # offs) ! i) = Inr (converted ((res # rs) ! i))"
    if "i < length (res # rs)" for i ext
  proof (cases i)
    case 0
    with 1(4) [of "more2 @ ext"] 2(1) show ?thesis by simp
  next
    case (Suc j)
    with that 2(5) [of j ext] show ?thesis by simp
  qed
  have 4: "marshal_results b (res # rs) = (b2, off # offs)"
    by (simp add: m r)
  show ?case
    unfolding 4 fst_conv snd_conv
  proof (intro exI [of _ "more1 @ more2"] conjI allI impI)
    show "Bytes b2 = Bytes b @ more1 @ more2"
      by (simp add: 1(1) 2(1))
    show "vector b2 = vector b"
      by (simp add: 1(2) 2(2))
    show "finished b2 = finished b"
      by (simp add: 1(3) 2(3))
    show "length (off # offs) = length (res # rs)"
      by (simp add: 2(4))
    show "read_item (Bytes b2 @ ext) ((off # offs) ! i) = Inr (converted ((res # rs) ! i))"
      if "i < length (res # rs)" for i ext
      using that by (rule 3)
  qed
qed

lemma Results_read_items:
  assumes "\<And>i. i < length offs \<Longrightarrow> read_item objs (offs ! i) = Inr (g i)"
    and "fb_get objs p = Some (FBTable [(0, SlotUOffsetT q)])"
    and "fb_get objs q = Some (FBVector offs)"
  shows "CodeCompleteResults_Results (NewCodeCompleteResults (Some \<lparr>Table_Bytes = objs, Pos = p\<rparr>))
         = Inr (map g [0..<length offs])"
proof -
  have len: "symbol_CodeCompleteResults_ResultsLength \<lparr>Table_Bytes = objs, Pos = p\<rparr>
             = Inr (length offs)"
    by (simp add: symbol_CodeCompleteResults_ResultsLength_def Table_VectorLen_def
        Table_Vector_def Table_Offset_def and_then_def assms(2,3))
  have elem: "symbol_CodeCompleteResults_Results \<lparr>Table_Bytes = objs, Pos = p\<rparr> i
              = Inr (Some \<lparr>Table_Bytes = objs, Pos = offs ! i\<rparr>)"
    if "i < length offs" for i
    using that
    by (simp add: symbol_CodeCompleteResults_Results_def Table_VectorTable_def
        Table_VectorElem_def Table_Offset_def and_then_def assms(2,3))
  show ?thesis
    unfolding CodeCompleteResults_Results_def NewCodeCompleteResults_def
    apply (simp add: len and_then_def [of "Inr _"])
    apply (rule sequence_map_Inr)
    apply (simp add: elem and_then_def [of "Inr _"])
    apply (simp add: assms(1) [unfolded read_item_def Let_def])
    done
qed

text \<open>
  C7. Encoding no candidate returns a builder that was never finished, and decoding it
  fails where the finished bytes are taken.
\<close>

theorem Marshal_no_candidates:
  "decode_Results (CodeCompleteResults_Marshal (Some [])) = Inl BuilderNotFinished"
  by (simp add: decode_Results_def CodeCompleteResults_Marshal_def FinishedBytes_def
      NewBuilder_def and_then_def)

lemma decode_Results_Marshal:
  "decode_Results (CodeCompleteResults_Marshal (Some v))
   = (if v = [] then Inl BuilderNotFinished else Inr (map converted v))"
proof (cases "v = []")
  case True
  then show ?thesis
    by (simp add: decode_Results_def CodeCompleteResults_Marshal_def FinishedBytes_def
      NewBuilder_def and_then_def)
next
  case False
  obtain b1 offs where r: "marshal_results NewBuilder v = (b1, offs)"
    by (cases "marshal_results NewBuilder v")
  have "length offs = length v
        \<and> (\<forall>i < length v. \<forall>ext. read_item (Bytes b1 @ ext) (offs ! i) = Inr (converted (v ! i)))"
    using marshal_results_read [of NewBuilder v] by (simp add: r)
  then have len: "length offs = length v"
    and items: "\<And>i ext. i < length v \<Longrightarrow> read_item (Bytes b1 @ ext) (offs ! i) = Inr (converted (v ! i))"
    by blast+
  define objs where "objs = Bytes b1 @ [FBVector offs, FBTable [(0, SlotUOffsetT (Suc (length (Bytes b1))))]]"
  have wv: "write_vector b1 offs (length v)
            = (b1\<lparr>Bytes := Bytes b1 @ [FBVector offs], vector := []\<rparr>, Suc (length (Bytes b1)))"
    using write_vector_fields [of b1 offs] by (simp add: len)
  have m: "CodeCompleteResults_Marshal (Some v)
           = Some \<lparr>Bytes = objs, vector = [], object = [],
                   finished = Some (Suc (Suc (length (Bytes b1))))\<rparr>"
    using False
    by (simp add: CodeCompleteResults_Marshal_def r Let_def wv
        StartObject_def symbol_CodeCompleteResultsAddResults_def PrependUOffsetTSlot_def Slot_def
        EndObject_def write_object_def Finish_def objs_def)
  have "CodeCompleteResults_Results (NewCodeCompleteResults (Some \<lparr>Table_Bytes = objs, Pos = Suc (Suc (length (Bytes b1)))\<rparr>))
         = Inr (map (\<lambda>i. converted (v ! i)) [0..<length offs])"
  proof (rule Results_read_items)
    show "read_item objs (offs ! i) = Inr (converted (v ! i))" if "i < length offs" for i
      using that items [of i] by (simp add: objs_def len)
    show "fb_get objs (Suc (Suc (length (Bytes b1)))) = Some (FBTable [(0, SlotUOffsetT (Suc (length (Bytes b1))))])"
      by (simp add: fb_get_def objs_def nth_append)
    show "fb_get objs (Suc (length (Bytes b1))) = Some (FBVector offs)"
      by (simp add: fb_get_def objs_def nth_append)
  qed
  moreover have "map (\<lambda>i. converted (v ! i)) [0..<length offs] = map converted v"
    by (rule nth_equalityI) (simp_all add: len)
  ultimately show ?thesis
    using False
    by (simp add: m decode_Results_def FinishedBytes_def and_then_def GetRootAs_def)
qed

text \<open>
  C7, as the code has it. With no candidate, \<open>Marshal\<close> returns the builder it has just
  created: nothing is written to it and \<open>Finish\<close> is not called, so it holds no root table
  and no \<open>Results\<close> vector, and taking its finished bytes panics. With one candidate or
  more, the buffer is finished and decodes to the converted items, one for each candidate
  and in the candidates' order.
\<close>

theorem Marshal_decode:
  "CodeCompleteResults_Marshal (Some []) = Some NewBuilder
   \<and> Bytes NewBuilder = [] \<and> finished NewBuilder = None
   \<and> FinishedBytes NewBuilder = Inl BuilderNotFinished
   \<and> decode_Results (CodeCompleteResults_Marshal (Some v))
       = (if v = [] then Inl BuilderNotFinished else Inr (map converted v))"
proof -
  have "CodeCompleteResults_Marshal (Some []) = Some NewBuilder"
    by (simp add: CodeCompleteResults_Marshal_def)
  moreover have "Bytes NewBuilder = []" and "finished NewBuilder = None"
    by (simp_all add: NewBuilder_def)
  moreover have "FinishedBytes NewBuilder = Inl BuilderNotFinished"
    by (simp add: FinishedBytes_def NewBuilder_def)
  ultimately show ?thesis
    using decode_Results_Marshal [of v] by simp
qed

section \<open>The encoding of a File and its decoding\<close>

lemmas Location_symbol_defs =
  symbol_Location_FileName_def symbol_Location_Line_def symbol_Location_Col_def
  symbol_Location_Offset_def symbol_Location_USR_def symbol_LocationAddFileName_def
  symbol_LocationAddLine_def symbol_LocationAddCol_def symbol_LocationAddOffset_def
  symbol_LocationAddUSR_def

lemma Location_serialize_reads:
  "\<exists>more. Bytes (fst (Location_serialize l b)) = Bytes b @ more
     \<and> vector (fst (Location_serialize l b)) = vector b
     \<and> finished (fst (Location_serialize l b)) = finished b
     \<and> (\<forall>ext. observe_Location
                 (view_Location (Bytes (fst (Location_serialize l b)) @ ext)
                    (snd (Location_serialize l b)))
               = Inr (stored_Location l))"
  by (cases l)
     (simp add: Location_serialize_def builder_defs reader_defs Location_symbol_defs
      observe_Location_def stored_Location_def view_Location_def zero_Location_def
      Location_FileName_def Location_Line_def Location_Col_def Location_Offset_def
      Location_USR_def nth_append Let_def)

lemma Location_serialize_view:
  assumes "Location_serialize l b = (b', off)"
  shows "0 < off"
    and "\<exists>more. Bytes b' = Bytes b @ more"
    and "observe_Location (view_Location (Bytes b' @ ext) off) = Inr (stored_Location l)"
proof -
  show "0 < off"
    using assms by (auto simp add: Location_serialize_def builder_defs Let_def split: if_splits)
  from Location_serialize_reads [of l b] assms
  show "\<exists>more. Bytes b' = Bytes b @ more"
    and "observe_Location (view_Location (Bytes b' @ ext) off) = Inr (stored_Location l)"
    by simp_all
qed

lemma serialize_each_reads:
  assumes "\<And>x b. x \<in> set xs \<Longrightarrow>
             \<exists>b' off more. ser x b = Inr (b', off) \<and> Bytes b' = Bytes b @ more
               \<and> (\<forall>ext. obs (Bytes b' @ ext) off = Inr (content x))"
  shows "\<exists>b' offs more. serialize_each ser xs b = Inr (b', offs) \<and> Bytes b' = Bytes b @ more
           \<and> length offs = length xs
           \<and> (\<forall>i < length xs. \<forall>ext. obs (Bytes b' @ ext) (offs ! i) = Inr (content (xs ! i)))"
  using assms
proof (induction xs arbitrary: b)
  case Nil
  show ?case by simp
next
  case (Cons x xs)
  from Cons.prems [of x b]
  obtain b1 off more1 where 1: "ser x b = Inr (b1, off)" "Bytes b1 = Bytes b @ more1"
      "\<And>ext. obs (Bytes b1 @ ext) off = Inr (content x)"
    by auto
  have "\<exists>b' offs more. serialize_each ser xs b1 = Inr (b', offs) \<and> Bytes b' = Bytes b1 @ more
           \<and> length offs = length xs
           \<and> (\<forall>i < length xs. \<forall>ext. obs (Bytes b' @ ext) (offs ! i) = Inr (content (xs ! i)))"
  proof (rule Cons.IH)
    fix y b
    assume "y \<in> set xs"
    then have "y \<in> set (x # xs)"
      by simp
    then show "\<exists>b' off more. ser y b = Inr (b', off) \<and> Bytes b' = Bytes b @ more
               \<and> (\<forall>ext. obs (Bytes b' @ ext) off = Inr (content y))"
      by (rule Cons.prems)
  qed
  then obtain b2 offs more2 where 2: "serialize_each ser xs b1 = Inr (b2, offs)"
      "Bytes b2 = Bytes b1 @ more2" "length offs = length xs"
      "\<And>i ext. i < length xs \<Longrightarrow> obs (Bytes b2 @ ext) (offs ! i) = Inr (content (xs ! i))"
    by blast
  have 3: "obs (Bytes b2 @ ext) ((off # offs) ! i) = Inr (content ((x # xs) ! i))"
    if "i < length (x # xs)" for i ext
  proof (cases i)
    case 0
    with 1(3) [of "more2 @ ext"] 2(2) show ?thesis by simp
  next
    case (Suc j)
    with that 2(4) [of j ext] show ?thesis by simp
  qed
  have 4: "serialize_each ser (x # xs) b = Inr (b2, off # offs)"
    by (simp add: 1(1) 2(1) and_then_def)
  show ?case
    unfolding 4
  proof (intro exI [of _ b2] exI [of _ "off # offs"] exI [of _ "more1 @ more2"] conjI allI impI)
    show "Inr (b2, off # offs) = Inr (b2, off # offs)" ..
    show "Bytes b2 = Bytes b @ more1 @ more2"
      by (simp add: 1(2) 2(2))
    show "length (off # offs) = length (x # xs)"
      by (simp add: 2(3))
    show "obs (Bytes b2 @ ext) ((off # offs) ! i) = Inr (content ((x # xs) ! i))"
      if "i < length (x # xs)" for i ext
      using that by (rule 3)
  qed
qed

lemma sequence_nth_Inr:
  assumes "length ys = length xs"
    and "\<And>i. i < length xs \<Longrightarrow> f (ys ! i) = Inr (g (xs ! i))"
  shows "sequence (map f ys) = Inr (map g xs)"
  using assms
proof (induction ys arbitrary: xs)
  case Nil
  then show ?case by simp
next
  case (Cons y ys)
  then obtain x xs' where xs: "xs = x # xs'"
    by (cases xs) auto
  from Cons.prems(2) [of 0] have "f y = Inr (g x)"
    by (simp add: xs)
  moreover have "sequence (map f ys) = Inr (map g xs')"
  proof (rule Cons.IH)
    show "length ys = length xs'"
      using Cons.prems(1) by (simp add: xs)
    show "f (ys ! i) = Inr (g (xs' ! i))" if "i < length xs'" for i
      using Cons.prems(2) [of "Suc i"] that by (simp add: xs)
  qed
  ultimately show ?case
    by (simp add: xs and_then_def)
qed

text \<open>Reading a table whose slots are known.\<close>

lemma Table_String_at:
  assumes "fb_get objs p = Some (FBTable slots)" and "map_of slots i = Some (SlotUOffsetT q)"
    and "fb_get objs q = Some (FBBytes s)"
  shows "Table_String \<lparr>Table_Bytes = objs, Pos = p\<rparr> i = Inr s"
  by (simp add: Table_String_def Table_Offset_def and_then_def assms)

lemma Table_Vector_at:
  assumes "fb_get objs p = Some (FBTable slots)" and "map_of slots i = Some (SlotUOffsetT q)"
    and "fb_get objs q = Some (FBVector offs)"
  shows "Table_Vector \<lparr>Table_Bytes = objs, Pos = p\<rparr> i = Inr offs"
    and "Table_VectorLen \<lparr>Table_Bytes = objs, Pos = p\<rparr> i = Inr (length offs)"
    and "j < length offs \<Longrightarrow>
         Table_VectorElem \<lparr>Table_Bytes = objs, Pos = p\<rparr> i j = Inr (Some (offs ! j))"
    and "j < length offs \<Longrightarrow>
         Table_VectorTable \<lparr>Table_Bytes = objs, Pos = p\<rparr> i j
         = Inr (Some \<lparr>Table_Bytes = objs, Pos = offs ! j\<rparr>)"
  by (simp_all add: Table_Vector_def Table_VectorLen_def Table_VectorElem_def
      Table_VectorTable_def Table_Offset_def and_then_def assms)

lemma Table_Vector_absent:
  assumes "fb_get objs p = Some (FBTable slots)" and "map_of slots i = None"
  shows "Table_VectorLen \<lparr>Table_Bytes = objs, Pos = p\<rparr> i = Inr 0"
  by (simp add: Table_Vector_def Table_VectorLen_def Table_Offset_def and_then_def assms)

lemma Table_Indirect_at:
  assumes "fb_get objs p = Some (FBTable slots)" and "map_of slots i = Some (SlotUOffsetT q)"
  shows "Table_Indirect \<lparr>Table_Bytes = objs, Pos = p\<rparr> i
         = Inr (Some \<lparr>Table_Bytes = objs, Pos = q\<rparr>)"
  by (simp add: Table_Indirect_def Table_Offset_def and_then_def assms)

lemma fb_get_append_last: "fb_get (objs @ x # ext) (Suc (length objs)) = Some x"
  by (simp add: fb_get_def nth_append)

lemma fb_get_append_old:
  "0 < p \<Longrightarrow> p \<le> length objs \<Longrightarrow> fb_get (objs @ ext) p = Some (objs ! (p - 1))"
  by (auto simp add: fb_get_def nth_append)

lemma Caller_serialize_view:
  "\<exists>b' off more. Caller_serialize (Some c) b = Inr (b', off) \<and> Bytes b' = Bytes b @ more
     \<and> (\<forall>ext. observe_Caller (view_Caller (Bytes b' @ ext) off) = Inr (stored_Caller c))"
proof -
  obtain b1 locOffset where l: "Location_serialize (caller_location c) b = (b1, locOffset)"
    by (cases "Location_serialize (caller_location c) b")
  note loc = Location_serialize_view [OF l]
  from loc(2) obtain more1 where more1: "Bytes b1 = Bytes b @ more1"
    by blast
  define slots where
    "slots = (if caller_funcCall c then [(1::nat, SlotByte 1)] else [])
             @ [(0, SlotUOffsetT locOffset)]"
  define b' where "b' = fst (EndObject (symbol_CallerAddFuncCall
      (symbol_CallerAddLocation (StartObject b1) locOffset)
      (if caller_funcCall c then 1 else 0)))"
  have ser: "Caller_serialize (Some c) b = Inr (b', Suc (length (Bytes b1)))"
    by (simp add: Caller_serialize_def l Let_def b'_def builder_defs
        symbol_CallerAddLocation_def symbol_CallerAddFuncCall_def)
  have bytes: "Bytes b' = Bytes b1 @ [FBTable slots]"
    using loc(1)
    by (simp add: b'_def builder_defs symbol_CallerAddLocation_def
        symbol_CallerAddFuncCall_def slots_def)
  have reads: "observe_Caller (view_Caller (Bytes b' @ ext) (Suc (length (Bytes b1))))
               = Inr (stored_Caller c)" for ext
  proof -
    define objs where "objs = Bytes b1 @ FBTable slots # ext"
    have table: "fb_get objs (Suc (length (Bytes b1))) = Some (FBTable slots)"
      unfolding objs_def by (rule fb_get_append_last)
    have location: "Caller_Location (zero_Caller\<lparr>caller_caller :=
                        Some \<lparr>Table_Bytes = objs, Pos = Suc (length (Bytes b1))\<rparr>\<rparr>)
                    = Inr (view_Location objs locOffset)"
      using Table_Indirect_at [OF table, of 0 locOffset]
      by (simp add: Caller_Location_def symbol_Caller_Location_def zero_Caller_def
          and_then_def view_Location_def slots_def)
    have observed: "observe_Location (view_Location objs locOffset)
                    = Inr (stored_Location (caller_location c))"
      using loc(3) [of "FBTable slots # ext"] by (simp add: objs_def)
    have funcCall: "Caller_FuncCall (zero_Caller\<lparr>caller_caller :=
                        Some \<lparr>Table_Bytes = objs, Pos = Suc (length (Bytes b1))\<rparr>\<rparr>)
                    = Inr (caller_funcCall c)"
      by (simp add: Caller_FuncCall_def symbol_Caller_FuncCall_def zero_Caller_def
          Table_Byte_def Table_Offset_def table and_then_def slots_def)
    show ?thesis
      by (simp add: observe_Caller_def view_Caller_def bytes objs_def [symmetric] location
          observed funcCall and_then_def stored_Caller_def)
  qed
  show ?thesis
    using ser bytes reads more1 by auto
qed

lemma Header_serialize_view:
  "\<exists>b' off more. Header_serialize FileIDString (Some h) b = Inr (b', off)
     \<and> Bytes b' = Bytes b @ more
     \<and> (\<forall>ext. observe_Header ToFileID (view_Header (Bytes b' @ ext) off)
               = Inr (stored_Header ToFileID FileIDString (Some h)))"
  by (simp add: Header_serialize_def Let_def builder_defs symbol_HeaderAddFileID_def
      symbol_HeaderAddMtime_def observe_Header_def view_Header_def stored_Header_def
      Header_FileID_def Header_Mtime_def symbol_Header_FileID_def symbol_Header_Mtime_def
      zero_Header_def reader_defs nth_append)

lemma read_vector_tables:
  assumes "fb_get objs p = Some (FBTable slots)" and "map_of slots k = Some (SlotUOffsetT q)"
    and "fb_get objs q = Some (FBVector offs)"
  shows "and_then (Table_VectorLen \<lparr>Table_Bytes = objs, Pos = p\<rparr> k) (\<lambda>n.
           sequence (map (\<lambda>i.
             and_then (Table_VectorTable \<lparr>Table_Bytes = objs, Pos = p\<rparr> k i) (\<lambda>obj. Inr (F obj)))
             [0..<n]))
         = Inr (map (\<lambda>q. F (Some \<lparr>Table_Bytes = objs, Pos = q\<rparr>)) offs)"
proof -
  note at = Table_Vector_at [OF assms]
  have "sequence (map (\<lambda>i.
             and_then (Table_VectorTable \<lparr>Table_Bytes = objs, Pos = p\<rparr> k i) (\<lambda>obj. Inr (F obj)))
             [0..<length offs])
        = Inr (map (\<lambda>i. F (Some \<lparr>Table_Bytes = objs, Pos = offs ! i\<rparr>)) [0..<length offs])"
    by (rule sequence_map_Inr) (simp add: at(4) and_then_def)
  moreover have "map (\<lambda>i. F (Some \<lparr>Table_Bytes = objs, Pos = offs ! i\<rparr>)) [0..<length offs]
                 = map (\<lambda>q. F (Some \<lparr>Table_Bytes = objs, Pos = q\<rparr>)) offs"
    by (rule nth_equalityI) simp_all
  ultimately show ?thesis
    by (simp add: at(2) and_then_def)
qed

lemma read_vector_tables_absent:
  assumes "fb_get objs p = Some (FBTable slots)" and "map_of slots k = None"
  shows "and_then (Table_VectorLen \<lparr>Table_Bytes = objs, Pos = p\<rparr> k) (\<lambda>n.
           sequence (map (\<lambda>i.
             and_then (Table_VectorTable \<lparr>Table_Bytes = objs, Pos = p\<rparr> k i) (\<lambda>obj. Inr (F obj)))
             [0..<n]))
         = Inr []"
  by (simp add: Table_Vector_absent [OF assms] and_then_def)

text \<open>A vector of serialized elements: the elements, then the vector of their offsets.\<close>

lemma vector_reads:
  assumes "\<And>x b. x \<in> set xs \<Longrightarrow>
             \<exists>b' off more. ser x b = Inr (b', off) \<and> Bytes b' = Bytes b @ more
               \<and> (\<forall>ext. obs (Bytes b' @ ext) off = Inr (content x))"
  shows "\<exists>b3 vecOff offs more.
           and_then (serialize_each ser xs b)
             (\<lambda>(b2, offsets). Inr (write_vector b2 offsets (length xs))) = Inr (b3, vecOff)
           \<and> Bytes b3 = Bytes b @ more \<and> 0 < vecOff \<and> length offs = length xs
           \<and> (\<forall>ext. fb_get (Bytes b3 @ ext) vecOff = Some (FBVector offs))
           \<and> (\<forall>i < length xs. \<forall>ext. obs (Bytes b3 @ ext) (offs ! i) = Inr (content (xs ! i)))"
proof -
  from serialize_each_reads [of xs ser obs content b, OF assms]
  obtain b2 offs more where 1: "serialize_each ser xs b = Inr (b2, offs)"
      "Bytes b2 = Bytes b @ more" "length offs = length xs"
      "\<And>i ext. i < length xs \<Longrightarrow> obs (Bytes b2 @ ext) (offs ! i) = Inr (content (xs ! i))"
    by blast
  have wv: "write_vector b2 offs (length xs)
            = (b2\<lparr>Bytes := Bytes b2 @ [FBVector offs], vector := []\<rparr>, Suc (length (Bytes b2)))"
    using write_vector_fields [of b2 offs] by (simp add: 1(3))
  define b3 where "b3 = b2\<lparr>Bytes := Bytes b2 @ [FBVector offs], vector := []\<rparr>"
  have 2: "and_then (serialize_each ser xs b)
             (\<lambda>(b2, offsets). Inr (write_vector b2 offsets (length xs)))
           = Inr (b3, Suc (length (Bytes b2)))"
    by (simp add: 1(1) and_then_def wv b3_def)
  have 3: "Bytes b3 = Bytes b @ more @ [FBVector offs]"
    by (simp add: b3_def 1(2))
  have 4: "fb_get (Bytes b3 @ ext) (Suc (length (Bytes b2))) = Some (FBVector offs)" for ext
    using fb_get_append_last [of "Bytes b2" "FBVector offs" ext] by (simp add: b3_def)
  have 5: "obs (Bytes b3 @ ext) (offs ! i) = Inr (content (xs ! i))" if "i < length xs" for i ext
    using 1(4) [OF that, of "FBVector offs # ext"] by (simp add: b3_def)
  show ?thesis
    using 2 3 1(3) 4 5 by blast
qed

lemma and_then_Inr: "and_then (Inr x) k = k x"
  by (simp add: and_then_def)

lemma Info_serialize_view:
  assumes callers: "None \<notin> set (info_callers i)"
  shows "\<exists>b' off more. Info_serialize IDString i b = Inr (b', off) \<and> Bytes b' = Bytes b @ more
           \<and> (\<forall>ext. observe_Info ToID (view_Info (Bytes b' @ ext) off)
                     = Inr (stored_Info ToID IDString i))"
proof -
  define idstr where "idstr = IDString (info_id i)"
  define b1 where "b1 = b\<lparr>Bytes := Bytes b @ [FBBytes idstr]\<rparr>"
  define id where "id = Suc (length (Bytes b))"
  have cs: "CreateString b (IDString (info_id i)) = (b1, id)"
    by (simp add: CreateString_def write_object_def b1_def id_def idstr_def)
  have bytes1: "Bytes b1 = Bytes b @ [FBBytes idstr]"
    by (simp add: b1_def)
  \<comment> \<open>the declarations\<close>
  have "\<exists>b3 vecOff offs more.
           and_then (serialize_each (\<lambda>decl b. Inr (Location_serialize decl b)) (info_decls i) b1)
             (\<lambda>(b2, offsets). Inr (write_vector b2 offsets (length (info_decls i)))) = Inr (b3, vecOff)
           \<and> Bytes b3 = Bytes b1 @ more \<and> 0 < vecOff \<and> length offs = length (info_decls i)
           \<and> (\<forall>ext. fb_get (Bytes b3 @ ext) vecOff = Some (FBVector offs))
           \<and> (\<forall>j < length (info_decls i). \<forall>ext.
                 observe_Location (view_Location (Bytes b3 @ ext) (offs ! j))
                 = Inr (stored_Location (info_decls i ! j)))"
  proof (rule vector_reads [where obs = "\<lambda>objs off. observe_Location (view_Location objs off)"
          and content = stored_Location])
    fix x :: Location and b :: Builder
    obtain b' off where s: "Location_serialize x b = (b', off)"
      by (cases "Location_serialize x b")
    from Location_serialize_view [OF s]
    show "\<exists>b' off more. Inr (Location_serialize x b) = Inr (b', off) \<and> Bytes b' = Bytes b @ more
            \<and> (\<forall>ext. observe_Location (view_Location (Bytes b' @ ext) off)
                      = Inr (stored_Location x))"
      by (simp add: s)
  qed
  then obtain b3v declVec declOffs moreD where D:
      "and_then (serialize_each (\<lambda>decl b. Inr (Location_serialize decl b)) (info_decls i) b1)
         (\<lambda>(b2, offsets). Inr (write_vector b2 offsets (length (info_decls i)))) = Inr (b3v, declVec)"
      "Bytes b3v = Bytes b1 @ moreD" "0 < declVec" "length declOffs = length (info_decls i)"
      "\<And>ext. fb_get (Bytes b3v @ ext) declVec = Some (FBVector declOffs)"
      "\<And>j ext. j < length (info_decls i) \<Longrightarrow>
         observe_Location (view_Location (Bytes b3v @ ext) (declOffs ! j))
         = Inr (stored_Location (info_decls i ! j))"
    by blast
  define b3 where "b3 = (if info_decls i = [] then b1 else b3v)"
  define declVecOffset where "declVecOffset = (if info_decls i = [] then 0 else declVec)"
  have decls: "(if 0 < length (info_decls i)
         then and_then
                (serialize_each (\<lambda>decl b. Inr (Location_serialize decl b)) (info_decls i) b1)
                (\<lambda>(b2, declsOffsets). Inr (write_vector b2 declsOffsets (length (info_decls i))))
         else Inr (b1, 0)) = Inr (b3, declVecOffset)"
    by (simp add: D(1) b3_def declVecOffset_def)
  obtain more3 where bytes3: "Bytes b3 = Bytes b1 @ more3"
    using D(2) by (cases "info_decls i = []") (simp_all add: b3_def)
  \<comment> \<open>the definition\<close>
  obtain b4 defOffset where d: "Location_serialize (info_def i) b3 = (b4, defOffset)"
    by (cases "Location_serialize (info_def i) b3")
  note defn = Location_serialize_view [OF d]
  from defn(2) obtain more4 where bytes4: "Bytes b4 = Bytes b3 @ more4"
    by blast
  \<comment> \<open>the callers\<close>
  have "\<exists>b6 vecOff offs more.
           and_then (serialize_each Caller_serialize (info_callers i) b4)
             (\<lambda>(b5, offsets). Inr (write_vector b5 offsets (length (info_callers i)))) = Inr (b6, vecOff)
           \<and> Bytes b6 = Bytes b4 @ more \<and> 0 < vecOff \<and> length offs = length (info_callers i)
           \<and> (\<forall>ext. fb_get (Bytes b6 @ ext) vecOff = Some (FBVector offs))
           \<and> (\<forall>j < length (info_callers i). \<forall>ext.
                 observe_Caller (view_Caller (Bytes b6 @ ext) (offs ! j))
                 = Inr (stored_Caller (the (info_callers i ! j))))"
  proof (rule vector_reads [where obs = "\<lambda>objs off. observe_Caller (view_Caller objs off)"
          and content = "\<lambda>c. stored_Caller (the c)"])
    fix x :: "Caller option" and b :: Builder
    assume "x \<in> set (info_callers i)"
    with callers obtain c where x: "x = Some c"
      by (cases x) auto
    from Caller_serialize_view [of c b]
    show "\<exists>b' off more. Caller_serialize x b = Inr (b', off) \<and> Bytes b' = Bytes b @ more
            \<and> (\<forall>ext. observe_Caller (view_Caller (Bytes b' @ ext) off)
                      = Inr (stored_Caller (the x)))"
      by (simp add: x)
  qed
  then obtain b6v callerVec callerOffs moreC where C:
      "and_then (serialize_each Caller_serialize (info_callers i) b4)
         (\<lambda>(b5, offsets). Inr (write_vector b5 offsets (length (info_callers i)))) = Inr (b6v, callerVec)"
      "Bytes b6v = Bytes b4 @ moreC" "0 < callerVec" "length callerOffs = length (info_callers i)"
      "\<And>ext. fb_get (Bytes b6v @ ext) callerVec = Some (FBVector callerOffs)"
      "\<And>j ext. j < length (info_callers i) \<Longrightarrow>
         observe_Caller (view_Caller (Bytes b6v @ ext) (callerOffs ! j))
         = Inr (stored_Caller (the (info_callers i ! j)))"
    by blast
  define b6 where "b6 = (if info_callers i = [] then b4 else b6v)"
  define callerVecOffset where "callerVecOffset = (if info_callers i = [] then 0 else callerVec)"
  have callers_part: "(if 0 < length (info_callers i)
         then and_then
                (serialize_each Caller_serialize (info_callers i) b4)
                (\<lambda>(b5, callersOffsets). Inr (write_vector b5 callersOffsets (length (info_callers i))))
         else Inr (b4, 0)) = Inr (b6, callerVecOffset)"
    by (simp add: C(1) b6_def callerVecOffset_def)
  obtain more6 where bytes6: "Bytes b6 = Bytes b4 @ more6"
    using C(2) by (cases "info_callers i = []") (simp_all add: b6_def)
  \<comment> \<open>the table\<close>
  define slots where
    "slots = (if info_callers i = [] then [] else [(3::nat, SlotUOffsetT callerVec)])
             @ [(2, SlotUOffsetT defOffset)]
             @ (if info_decls i = [] then [] else [(1, SlotUOffsetT declVec)])
             @ [(0, SlotUOffsetT id)]"
  define tbl where "tbl = EndObject (symbol_InfoAddCallers (symbol_InfoAddDef
      (symbol_InfoAddDecls (symbol_InfoAddID (StartObject b6) id) declVecOffset) defOffset)
      callerVecOffset)"
  have ser: "Info_serialize IDString i b = Inr tbl"
    by (simp only: Info_serialize_def cs Let_def prod.case decls and_then_Inr d callers_part
        tbl_def)
  have bytes': "Bytes (fst tbl) = Bytes b6 @ [FBTable slots]"
    using defn(1) D(3) C(3)
    by (simp add: tbl_def builder_defs symbol_InfoAddID_def symbol_InfoAddDecls_def
        symbol_InfoAddDef_def symbol_InfoAddCallers_def slots_def id_def declVecOffset_def
        callerVecOffset_def)
  have off: "snd tbl = Suc (length (Bytes b6))"
    by (simp add: tbl_def builder_defs symbol_InfoAddID_def symbol_InfoAddDecls_def
        symbol_InfoAddDef_def symbol_InfoAddCallers_def)
  have reads: "observe_Info ToID (view_Info (Bytes (fst tbl) @ ext) (snd tbl))
               = Inr (stored_Info ToID IDString i)" for ext
  proof -
    define objs where "objs = Bytes b6 @ FBTable slots # ext"
    define v where "v = zero_Info\<lparr>info_info := Some \<lparr>Table_Bytes = objs, Pos = Suc (length (Bytes b6))\<rparr>\<rparr>"
    define dOffs where "dOffs = (if info_decls i = [] then [] else declOffs)"
    define cOffs where "cOffs = (if info_callers i = [] then [] else callerOffs)"
    have view: "view_Info (Bytes (fst tbl) @ ext) (snd tbl) = Some v"
      by (simp add: view_Info_def bytes' off objs_def v_def)
    have info: "info_info v = Some \<lparr>Table_Bytes = objs, Pos = Suc (length (Bytes b6))\<rparr>"
      by (simp add: v_def zero_Info_def)
    have table: "fb_get objs (Suc (length (Bytes b6))) = Some (FBTable slots)"
      unfolding objs_def by (rule fb_get_append_last)
    have slot0: "map_of slots 0 = Some (SlotUOffsetT id)"
      and slot1: "map_of slots 1 = (if info_decls i = [] then None else Some (SlotUOffsetT declVec))"
      and slot2: "map_of slots 2 = Some (SlotUOffsetT defOffset)"
      and slot3: "map_of slots 3 = (if info_callers i = [] then None else Some (SlotUOffsetT callerVec))"
      by (simp_all add: slots_def)
    \<comment> \<open>the ID\<close>
    have "objs = Bytes b @ FBBytes idstr # (more3 @ more4 @ more6 @ FBTable slots # ext)"
      by (simp add: objs_def bytes6 bytes4 bytes3 bytes1)
    then have "fb_get objs id = Some (FBBytes idstr)"
      unfolding id_def by (simp only: fb_get_append_last)
    then have ID: "Info_ID ToID v = Inr (ToID idstr)"
      using Table_String_at [OF table slot0]
      by (simp add: Info_ID_def info symbol_Info_ID_def and_then_def)
    \<comment> \<open>the declarations\<close>
    have Decls: "Info_Decls v = Inr (map (view_Location objs) dOffs)"
    proof (cases "info_decls i = []")
      case True
      with slot1 have "map_of slots 1 = None"
        by simp
      from read_vector_tables_absent [OF table this, where F = "\<lambda>obj. case obj of None \<Rightarrow> zero_Location | Some x \<Rightarrow> zero_Location\<lparr>location_location := Some x\<rparr>"]
      show ?thesis
        by (simp add: Info_Decls_def info symbol_Info_DeclsLength_def symbol_Info_Decls_def True dOffs_def)
    next
      case False
      with slot1 have slot: "map_of slots 1 = Some (SlotUOffsetT declVec)"
        by simp
      have "objs = Bytes b3v @ (more4 @ more6 @ FBTable slots # ext)"
        using False by (simp add: objs_def bytes6 bytes4 b3_def)
      then have vec: "fb_get objs declVec = Some (FBVector declOffs)"
        by (simp only: D(5))
      from read_vector_tables [OF table slot vec, where F = "\<lambda>obj. case obj of None \<Rightarrow> zero_Location | Some x \<Rightarrow> zero_Location\<lparr>location_location := Some x\<rparr>"]
      show ?thesis
        by (simp add: Info_Decls_def info symbol_Info_DeclsLength_def symbol_Info_Decls_def False
            view_Location_def dOffs_def)
    qed
    have decls_observed:
      "sequence (map observe_Location
                  (map (view_Location objs) dOffs))
       = Inr (map stored_Location (info_decls i))"
    proof (cases "info_decls i = []")
      case True
      then show ?thesis by (simp add: dOffs_def)
    next
      case False
      have objs: "objs = Bytes b3v @ (more4 @ more6 @ FBTable slots # ext)"
        using False by (simp add: objs_def bytes6 bytes4 b3_def)
      have "sequence (map (\<lambda>q. observe_Location (view_Location objs q)) declOffs)
            = Inr (map stored_Location (info_decls i))"
      proof (rule sequence_nth_Inr)
        show "length declOffs = length (info_decls i)"
          by (rule D(4))
        show "observe_Location (view_Location objs (declOffs ! j))
              = Inr (stored_Location (info_decls i ! j))" if "j < length (info_decls i)" for j
          unfolding objs using that by (rule D(6))
      qed
      with False show ?thesis
        by (simp add: comp_def dOffs_def)
    qed
    \<comment> \<open>the definition\<close>
    have Def: "Info_Def v = Inr (view_Location objs defOffset)"
      using Table_Indirect_at [OF table slot2]
      by (simp add: Info_Def_def info symbol_Info_Def_def and_then_def view_Location_def)
    have "objs = Bytes b4 @ (more6 @ FBTable slots # ext)"
      by (simp add: objs_def bytes6)
    then have def_observed: "observe_Location (view_Location objs defOffset)
                             = Inr (stored_Location (info_def i))"
      by (simp only: defn(3))
    \<comment> \<open>the callers\<close>
    have Callers: "Info_Callers v
                   = Inr (map (view_Caller objs) cOffs)"
    proof (cases "info_callers i = []")
      case True
      with slot3 have "map_of slots 3 = None"
        by simp
      from read_vector_tables_absent [OF table this, where F = "map_option (\<lambda>x. zero_Caller\<lparr>caller_caller := Some x\<rparr>)"]
      show ?thesis
        by (simp add: Info_Callers_def info symbol_Info_CallersLength_def symbol_Info_Callers_def
            True cOffs_def)
    next
      case False
      with slot3 have slot: "map_of slots 3 = Some (SlotUOffsetT callerVec)"
        by simp
      have "objs = Bytes b6v @ (FBTable slots # ext)"
        using False by (simp add: objs_def b6_def)
      then have vec: "fb_get objs callerVec = Some (FBVector callerOffs)"
        by (simp only: C(5))
      from read_vector_tables [OF table slot vec, where F = "map_option (\<lambda>x. zero_Caller\<lparr>caller_caller := Some x\<rparr>)"]
      show ?thesis
        by (simp add: Info_Callers_def info symbol_Info_CallersLength_def symbol_Info_Callers_def
            False view_Caller_def cOffs_def)
    qed
    have callers_observed:
      "sequence (map observe_Caller
                  (map (view_Caller objs) cOffs))
       = Inr (map (\<lambda>c. stored_Caller (the c)) (info_callers i))"
    proof (cases "info_callers i = []")
      case True
      then show ?thesis by (simp add: cOffs_def)
    next
      case False
      have objs: "objs = Bytes b6v @ (FBTable slots # ext)"
        using False by (simp add: objs_def b6_def)
      have "sequence (map (\<lambda>q. observe_Caller (view_Caller objs q)) callerOffs)
            = Inr (map (\<lambda>c. stored_Caller (the c)) (info_callers i))"
      proof (rule sequence_nth_Inr)
        show "length callerOffs = length (info_callers i)"
          by (rule C(4))
        show "observe_Caller (view_Caller objs (callerOffs ! j))
              = Inr (stored_Caller (the (info_callers i ! j)))" if "j < length (info_callers i)" for j
          unfolding objs using that by (rule C(6))
      qed
      with False show ?thesis
        by (simp add: comp_def cOffs_def)
    qed
    have some: "map Some (map (\<lambda>c. stored_Caller (the c)) (info_callers i))
                = map (map_option stored_Caller) (info_callers i)"
    proof -
      have "Some (stored_Caller (the c)) = map_option stored_Caller c"
        if "c \<in> set (info_callers i)" for c
      proof (cases c)
        case None
        with that callers show ?thesis
          by simp
      next
        case (Some a)
        then show ?thesis
          by simp
      qed
      then show ?thesis
        by simp
    qed
    show ?thesis
      by (simp only: view observe_Info_def option.case ID Decls decls_observed Def def_observed
          Callers callers_observed and_then_Inr stored_Info_def some idstr_def)
  qed
  have "Bytes (fst tbl) = Bytes b @ ([FBBytes idstr] @ more3 @ more4 @ more6 @ [FBTable slots])"
    by (simp add: bytes' bytes6 bytes4 bytes3 bytes1)
  with ser reads show ?thesis
    by (metis prod.collapse)
qed

lemma vector_reads_steps:
  assumes "\<And>x b. x \<in> set xs \<Longrightarrow>
             \<exists>b' off more. ser x b = Inr (b', off) \<and> Bytes b' = Bytes b @ more
               \<and> (\<forall>ext. obs (Bytes b' @ ext) off = Inr (content x))"
  shows "\<exists>b2 offs b3 vecOff more.
           serialize_each ser xs b = Inr (b2, offs)
           \<and> write_vector b2 offs (length xs) = (b3, vecOff)
           \<and> Bytes b3 = Bytes b @ more \<and> 0 < vecOff \<and> length offs = length xs
           \<and> (\<forall>ext. fb_get (Bytes b3 @ ext) vecOff = Some (FBVector offs))
           \<and> (\<forall>i < length xs. \<forall>ext. obs (Bytes b3 @ ext) (offs ! i) = Inr (content (xs ! i)))"
proof -
  from serialize_each_reads [of xs ser obs content b, OF assms]
  obtain b2 offs more where 1: "serialize_each ser xs b = Inr (b2, offs)"
      "Bytes b2 = Bytes b @ more" "length offs = length xs"
      "\<And>i ext. i < length xs \<Longrightarrow> obs (Bytes b2 @ ext) (offs ! i) = Inr (content (xs ! i))"
    by blast
  define b3 where "b3 = b2\<lparr>Bytes := Bytes b2 @ [FBVector offs], vector := []\<rparr>"
  have wv: "write_vector b2 offs (length xs) = (b3, Suc (length (Bytes b2)))"
    using write_vector_fields [of b2 offs] by (simp add: 1(3) b3_def)
  have 3: "Bytes b3 = Bytes b @ more @ [FBVector offs]"
    by (simp add: b3_def 1(2))
  have 4: "fb_get (Bytes b3 @ ext) (Suc (length (Bytes b2))) = Some (FBVector offs)" for ext
    using fb_get_append_last [of "Bytes b2" "FBVector offs" ext] by (simp add: b3_def)
  have 5: "obs (Bytes b3 @ ext) (offs ! i) = Inr (content (xs ! i))" if "i < length xs" for i ext
    using 1(4) [OF that, of "FBVector offs # ext"] by (simp add: b3_def)
  show ?thesis
    using 1(1) wv 3 1(3) 4 5 by blast
qed

lemma read_vector_strings:
  assumes "fb_get objs p = Some (FBTable slots)" and "map_of slots k = Some (SlotUOffsetT q)"
    and "fb_get objs q = Some (FBVector offs)"
  shows "and_then (Table_VectorLen \<lparr>Table_Bytes = objs, Pos = p\<rparr> k) (\<lambda>n.
           sequence (map (\<lambda>i. Table_VectorString \<lparr>Table_Bytes = objs, Pos = p\<rparr> k i) [0..<n]))
         = sequence (map (read_bytes objs) offs)"
proof -
  note at = Table_Vector_at [OF assms]
  have "map (\<lambda>i. Table_VectorString \<lparr>Table_Bytes = objs, Pos = p\<rparr> k i) [0..<length offs]
        = map (read_bytes objs) offs"
    by (rule nth_equalityI)
       (simp_all add: Table_VectorString_def at(3) and_then_def read_bytes_def)
  then show ?thesis
    by (simp add: at(2) and_then_def)
qed

lemma length_range_map:
  assumes "iteration_order m order"
  shows "length (range_map m order) = len_map m"
proof (cases m)
  case None
  with assms show ?thesis
    by (simp add: iteration_order_def range_map_def len_map_def)
next
  case (Some m')
  with assms have d: "distinct order" and s: "set order = dom m'"
    by (simp_all add: iteration_order_def)
  have "filter (\<lambda>k. m' k \<noteq> None) order = order"
    using s by (auto simp add: filter_id_conv)
  then have "length (range_map m order) = length order"
    by (simp add: Some range_map_def List.map_filter_def)
  also have "\<dots> = card (set order)"
    using d by (simp add: distinct_card)
  finally show ?thesis
    by (simp add: Some len_map_def s)
qed

theorem Serialize_roundtrip:
  assumes name: "file_name f \<noteq> []" and unit: "file_translationUnit f \<noteq> []"
    and order: "iteration_order (file_symbols f) order"
    and headers: "None \<notin> set (file_headers f)"
    and callers: "\<And>i. i \<in> set (range_map (file_symbols f) order) \<Longrightarrow> None \<notin> set (info_callers i)"
  shows "\<exists>f' b v. Serialize IDString FileIDString f order = Inr (f', b)
           \<and> decode_File b = Inr v
           \<and> observe_File ToID ToFileID v
               = Inr (file_name f, file_flags f, file_translationUnit f,
                      map (stored_Info ToID IDString) (range_map (file_symbols f) order),
                      map (stored_Header ToFileID FileIDString) (file_headers f))"
proof -
  define b0 where "b0 = (case file_builder f of None \<Rightarrow> NewBuilder | Some b \<Rightarrow> b)"
  have Name: "File_Name f = Inr (file_name f)"
    using name by (simp add: File_Name_def)
  have TU: "File_TranslationUnit f = Inr (file_translationUnit f)"
    using unit by (simp add: File_TranslationUnit_def)
  define b1 where "b1 = b0\<lparr>Bytes := Bytes b0 @ [FBBytes (file_name f)]\<rparr>"
  define fname where "fname = Suc (length (Bytes b0))"
  have cs1: "CreateString b0 (file_name f) = (b1, fname)"
    by (simp add: CreateString_def write_object_def b1_def fname_def)
  define b2 where "b2 = b1\<lparr>Bytes := Bytes b1 @ [FBBytes (file_translationUnit f)]\<rparr>"
  define tu where "tu = Suc (length (Bytes b1))"
  have cs2: "CreateByteString b1 (file_translationUnit f) = (b2, tu)"
    by (simp add: CreateByteString_def write_object_def b2_def tu_def)
  have bytes2: "Bytes b2 = Bytes b0 @ [FBBytes (file_name f), FBBytes (file_translationUnit f)]"
    by (simp add: b2_def b1_def)
  \<comment> \<open>the flags\<close>
  have "\<exists>b3 offs b4 vecOff more.
           serialize_each (\<lambda>flag b. Inr (CreateString b flag)) (file_flags f) b2 = Inr (b3, offs)
           \<and> write_vector b3 offs (length (file_flags f)) = (b4, vecOff)
           \<and> Bytes b4 = Bytes b2 @ more \<and> 0 < vecOff \<and> length offs = length (file_flags f)
           \<and> (\<forall>ext. fb_get (Bytes b4 @ ext) vecOff = Some (FBVector offs))
           \<and> (\<forall>i < length (file_flags f). \<forall>ext.
                 read_bytes (Bytes b4 @ ext) (offs ! i) = Inr (file_flags f ! i))"
    by (rule vector_reads_steps [where obs = read_bytes and content = "\<lambda>s. s"])
       (simp add: CreateString_def write_object_def read_bytes_def fb_get_def nth_append)
  then obtain b3 flagOffsets b4 flagVecOffset moreF where F:
      "serialize_each (\<lambda>flag b. Inr (CreateString b flag)) (file_flags f) b2 = Inr (b3, flagOffsets)"
      "write_vector b3 flagOffsets (length (file_flags f)) = (b4, flagVecOffset)"
      "Bytes b4 = Bytes b2 @ moreF" "0 < flagVecOffset" "length flagOffsets = length (file_flags f)"
      "\<And>ext. fb_get (Bytes b4 @ ext) flagVecOffset = Some (FBVector flagOffsets)"
      "\<And>i ext. i < length (file_flags f) \<Longrightarrow>
         read_bytes (Bytes b4 @ ext) (flagOffsets ! i) = Inr (file_flags f ! i)"
    by blast
  \<comment> \<open>the symbols\<close>
  define infos where "infos = range_map (file_symbols f) order"
  have n: "len_map (file_symbols f) = length infos"
    using length_range_map [OF order] by (simp add: infos_def)
  have "\<exists>b5 offs b6 vecOff more.
           serialize_each (Info_serialize IDString) infos b4 = Inr (b5, offs)
           \<and> write_vector b5 offs (length infos) = (b6, vecOff)
           \<and> Bytes b6 = Bytes b4 @ more \<and> 0 < vecOff \<and> length offs = length infos
           \<and> (\<forall>ext. fb_get (Bytes b6 @ ext) vecOff = Some (FBVector offs))
           \<and> (\<forall>i < length infos. \<forall>ext.
                 observe_Info ToID (view_Info (Bytes b6 @ ext) (offs ! i))
                 = Inr (stored_Info ToID IDString (infos ! i)))"
  proof (rule vector_reads_steps [where obs = "\<lambda>objs off. observe_Info ToID (view_Info objs off)"
          and content = "stored_Info ToID IDString"])
    fix x :: Info and b :: Builder
    assume "x \<in> set infos"
    then have "None \<notin> set (info_callers x)"
      unfolding infos_def by (rule callers)
    then show "\<exists>b' off more. Info_serialize IDString x b = Inr (b', off)
                 \<and> Bytes b' = Bytes b @ more
                 \<and> (\<forall>ext. observe_Info ToID (view_Info (Bytes b' @ ext) off)
                           = Inr (stored_Info ToID IDString x))"
      by (rule Info_serialize_view)
  qed
  then obtain b5 symbolOffsets b6 symbolVecOffset moreS where S:
      "serialize_each (Info_serialize IDString) infos b4 = Inr (b5, symbolOffsets)"
      "write_vector b5 symbolOffsets (length infos) = (b6, symbolVecOffset)"
      "Bytes b6 = Bytes b4 @ moreS" "0 < symbolVecOffset" "length symbolOffsets = length infos"
      "\<And>ext. fb_get (Bytes b6 @ ext) symbolVecOffset = Some (FBVector symbolOffsets)"
      "\<And>i ext. i < length infos \<Longrightarrow>
         observe_Info ToID (view_Info (Bytes b6 @ ext) (symbolOffsets ! i))
         = Inr (stored_Info ToID IDString (infos ! i))"
    by blast
  \<comment> \<open>the headers\<close>
  have "\<exists>b7 offs b8 vecOff more.
           serialize_each (Header_serialize FileIDString) (file_headers f) b6 = Inr (b7, offs)
           \<and> write_vector b7 offs (length (file_headers f)) = (b8, vecOff)
           \<and> Bytes b8 = Bytes b6 @ more \<and> 0 < vecOff \<and> length offs = length (file_headers f)
           \<and> (\<forall>ext. fb_get (Bytes b8 @ ext) vecOff = Some (FBVector offs))
           \<and> (\<forall>i < length (file_headers f). \<forall>ext.
                 observe_Header ToFileID (view_Header (Bytes b8 @ ext) (offs ! i))
                 = Inr (stored_Header ToFileID FileIDString (file_headers f ! i)))"
  proof (rule vector_reads_steps [where obs = "\<lambda>objs off. observe_Header ToFileID (view_Header objs off)"
          and content = "stored_Header ToFileID FileIDString"])
    fix x :: "Header option" and b :: Builder
    assume "x \<in> set (file_headers f)"
    with headers obtain h where x: "x = Some h"
      by (cases x) auto
    show "\<exists>b' off more. Header_serialize FileIDString x b = Inr (b', off)
            \<and> Bytes b' = Bytes b @ more
            \<and> (\<forall>ext. observe_Header ToFileID (view_Header (Bytes b' @ ext) off)
                      = Inr (stored_Header ToFileID FileIDString x))"
      unfolding x by (rule Header_serialize_view)
  qed
  then obtain b7 hdrOffsets b8 headerVecOffset moreH where H:
      "serialize_each (Header_serialize FileIDString) (file_headers f) b6 = Inr (b7, hdrOffsets)"
      "write_vector b7 hdrOffsets (length (file_headers f)) = (b8, headerVecOffset)"
      "Bytes b8 = Bytes b6 @ moreH" "0 < headerVecOffset"
      "length hdrOffsets = length (file_headers f)"
      "\<And>ext. fb_get (Bytes b8 @ ext) headerVecOffset = Some (FBVector hdrOffsets)"
      "\<And>i ext. i < length (file_headers f) \<Longrightarrow>
         observe_Header ToFileID (view_Header (Bytes b8 @ ext) (hdrOffsets ! i))
         = Inr (stored_Header ToFileID FileIDString (file_headers f ! i))"
    by blast
  \<comment> \<open>the root table\<close>
  define slots where
    "slots = [(4::nat, SlotUOffsetT headerVecOffset), (3, SlotUOffsetT symbolVecOffset),
              (2, SlotUOffsetT tu), (1, SlotUOffsetT flagVecOffset), (0, SlotUOffsetT fname)]"
  define b14 where "b14 = symbol_FileAddHeaders (symbol_FileAddSymbols
      (symbol_FileAddTranslationUnit (symbol_FileAddFlags (symbol_FileAddName (StartObject b8)
        fname) flagVecOffset) tu) symbolVecOffset) headerVecOffset"
  define b15 where "b15 = fst (EndObject b14)"
  define root where "root = snd (EndObject b14)"
  define b16 where "b16 = Finish b15 root"
  have eo: "EndObject b14 = (b15, root)"
    by (simp add: b15_def root_def)
  have ser: "Serialize IDString FileIDString f order = Inr (f\<lparr>file_builder := Some b16\<rparr>, b16)"
    by (simp only: Serialize_def Let_def Name TU and_then_Inr cs1 [unfolded b0_def]
        cs2 prod.case F(1) F(2) infos_def [symmetric] n S(1) S(2) H(1) H(2)
        b14_def [symmetric] eo b16_def [symmetric])
  have bytes16: "Bytes b16 = Bytes b8 @ [FBTable slots]"
    and root: "root = Suc (length (Bytes b8))"
    and finished16: "finished b16 = Some root"
    using F(4) S(4) H(4)
    by (simp_all add: b16_def b15_def root_def b14_def builder_defs symbol_FileAddName_def
        symbol_FileAddFlags_def symbol_FileAddTranslationUnit_def symbol_FileAddSymbols_def
        symbol_FileAddHeaders_def slots_def fname_def tu_def)
  define objs where "objs = Bytes b8 @ [FBTable slots]"
  define t where "t = \<lparr>Table_Bytes = objs, Pos = root\<rparr>"
  define v where "v = zero_File\<lparr>file_file := Some t\<rparr>"
  have decode: "decode_File b16 = Inr v"
    by (simp add: decode_File_def FinishedBytes_def finished16 and_then_def GetRootAsFile_def
        GetRootAs_def v_def t_def objs_def bytes16)
  have v: "file_name v = []" "file_flags v = []" "file_translationUnit v = []"
      "file_symbols v = None" "file_headers v = []" "file_file v = Some t"
    by (simp_all add: v_def zero_File_def)
  have table: "fb_get objs root = Some (FBTable slots)"
    unfolding objs_def root by (rule fb_get_append_last)
  have slot0: "map_of slots 0 = Some (SlotUOffsetT fname)"
    and slot1: "map_of slots 1 = Some (SlotUOffsetT flagVecOffset)"
    and slot2: "map_of slots 2 = Some (SlotUOffsetT tu)"
    and slot3: "map_of slots 3 = Some (SlotUOffsetT symbolVecOffset)"
    and slot4: "map_of slots 4 = Some (SlotUOffsetT headerVecOffset)"
    by (simp_all add: slots_def)
  \<comment> \<open>the name and the translation unit\<close>
  have "objs = Bytes b0 @ FBBytes (file_name f)
                 # (FBBytes (file_translationUnit f) # moreF @ moreS @ moreH @ [FBTable slots])"
    by (simp add: objs_def H(3) S(3) F(3) bytes2)
  then have "fb_get objs fname = Some (FBBytes (file_name f))"
    unfolding fname_def by (simp only: fb_get_append_last)
  then have Name': "File_Name v = Inr (file_name f)"
    using Table_String_at [OF table slot0]
    by (simp add: File_Name_def v symbol_File_Name_def t_def)
  have "objs = Bytes b1 @ FBBytes (file_translationUnit f)
                 # (moreF @ moreS @ moreH @ [FBTable slots])"
    by (simp add: objs_def H(3) S(3) F(3) b2_def)
  then have "fb_get objs tu = Some (FBBytes (file_translationUnit f))"
    unfolding tu_def by (simp only: fb_get_append_last)
  then have TU': "File_TranslationUnit v = Inr (file_translationUnit f)"
    using Table_String_at [OF table slot2]
    by (simp add: File_TranslationUnit_def v symbol_File_TranslationUnit_def t_def)
  \<comment> \<open>the flags\<close>
  have objsF: "objs = Bytes b4 @ (moreS @ moreH @ [FBTable slots])"
    by (simp add: objs_def H(3) S(3))
  have vecF: "fb_get objs flagVecOffset = Some (FBVector flagOffsets)"
    unfolding objsF by (rule F(6))
  have "sequence (map (read_bytes objs) flagOffsets) = Inr (map (\<lambda>s. s) (file_flags f))"
  proof (rule sequence_nth_Inr)
    show "length flagOffsets = length (file_flags f)"
      by (rule F(5))
    show "read_bytes objs (flagOffsets ! i) = Inr (file_flags f ! i)"
      if "i < length (file_flags f)" for i
      unfolding objsF using that by (rule F(7))
  qed
  then have Flags': "File_Flags v = Inr (file_flags f)"
    using read_vector_strings [OF table slot1 vecF]
    by (simp add: File_Flags_def v symbol_File_FlagsLength_def symbol_File_Flags_def [abs_def] t_def)
  \<comment> \<open>the symbols\<close>
  have objsS: "objs = Bytes b6 @ (moreH @ [FBTable slots])"
    by (simp add: objs_def H(3))
  have vecS: "fb_get objs symbolVecOffset = Some (FBVector symbolOffsets)"
    unfolding objsS by (rule S(6))
  have Symbols': "File_Symbols v [] = Inr (map (view_Info objs) symbolOffsets)"
    using read_vector_tables [OF table slot3 vecS,
        where F = "map_option (\<lambda>x. zero_Info\<lparr>info_info := Some x\<rparr>)"]
    by (simp add: File_Symbols_def v len_map_def symbol_File_SymbolsLength_def
        symbol_File_Symbols_def t_def view_Info_def)
  have "sequence (map (\<lambda>q. observe_Info ToID (view_Info objs q)) symbolOffsets)
        = Inr (map (stored_Info ToID IDString) infos)"
  proof (rule sequence_nth_Inr)
    show "length symbolOffsets = length infos"
      by (rule S(5))
    show "observe_Info ToID (view_Info objs (symbolOffsets ! i))
          = Inr (stored_Info ToID IDString (infos ! i))" if "i < length infos" for i
      unfolding objsS using that by (rule S(7))
  qed
  then have symbols_observed:
    "sequence (map (observe_Info ToID) (map (view_Info objs) symbolOffsets))
     = Inr (map (stored_Info ToID IDString) infos)"
    by (simp add: comp_def)
  \<comment> \<open>the headers\<close>
  have objsH: "objs = Bytes b8 @ [FBTable slots]"
    by (simp add: objs_def)
  have vecH: "fb_get objs headerVecOffset = Some (FBVector hdrOffsets)"
    unfolding objsH by (rule H(6))
  have Headers': "File_Headers v = Inr (map (view_Header objs) hdrOffsets)"
    using read_vector_tables [OF table slot4 vecH,
        where F = "map_option (\<lambda>x. zero_Header\<lparr>header_header := Some x\<rparr>)"]
    by (simp add: File_Headers_def v symbol_File_HeadersLength_def
        symbol_File_Headers_def t_def view_Header_def)
  have "sequence (map (\<lambda>q. observe_Header ToFileID (view_Header objs q)) hdrOffsets)
        = Inr (map (stored_Header ToFileID FileIDString) (file_headers f))"
  proof (rule sequence_nth_Inr)
    show "length hdrOffsets = length (file_headers f)"
      by (rule H(5))
    show "observe_Header ToFileID (view_Header objs (hdrOffsets ! i))
          = Inr (stored_Header ToFileID FileIDString (file_headers f ! i))"
      if "i < length (file_headers f)" for i
      unfolding objsH using that by (rule H(7))
  qed
  then have headers_observed:
    "sequence (map (observe_Header ToFileID) (map (view_Header objs) hdrOffsets))
     = Inr (map (stored_Header ToFileID FileIDString) (file_headers f))"
    by (simp add: comp_def)
  have "observe_File ToID ToFileID v
        = Inr (file_name f, file_flags f, file_translationUnit f,
               map (stored_Info ToID IDString) infos,
               map (stored_Header ToFileID FileIDString) (file_headers f))"
    by (simp only: observe_File_def Name' Flags' TU' Symbols' symbols_observed Headers'
        headers_observed and_then_Inr)
  with ser decode show ?thesis
    unfolding infos_def by blast
qed

section \<open>Serializing a File that was built by mutation calls\<close>

lemma Serialize_no_TranslationUnit:
  assumes "file_translationUnit f = []" and "file_file f = None" and "file_name f \<noteq> []"
  shows "Serialize IDString FileIDString f order = Inl NilPointerDereference"
  using assms
  by (simp add: Serialize_def File_Name_def File_TranslationUnit_def and_then_def Let_def
      CreateString_def write_object_def)

lemma Serialize_no_name:
  assumes "file_name f = []" and "file_file f = None"
  shows "Serialize IDString FileIDString f order = Inl NilPointerDereference"
  using assms
  by (simp add: Serialize_def File_Name_def and_then_def Let_def)

lemma Clean_stdio: "filepath_Clean ''/usr/include/stdio.h'' = ''/usr/include/stdio.h''"
  by code_simp

text \<open>
  C1. The sentence does not hold of \<open>Serialize\<close>. A \<open>File\<close> made by \<open>NewFile\<close> and one
  \<open>AddDecl\<close>, with no call of \<open>AddTranslationUnit\<close>, cannot be serialized at all:
  \<open>Serialize\<close> takes the translation unit through the accessor \<open>TranslationUnit\<close>, which
  falls back to the backing buffer of a \<open>File\<close> that has none. With a translation unit the
  buffer decodes, and the name, the flags, the translation unit, the declarations and the
  modification time of the header read back as stored; but the \<open>ID\<close> read through the view
  is the hash of the text of the stored \<open>ID\<close>, \<open>ToID (IDString (ToID usr))\<close>, where the
  \<open>File\<close> that was built holds \<open>ToID usr\<close>, and the \<open>FileID\<close> of the header is hashed
  a second time in the same way.
\<close>

theorem Serialize_decode_ID:
  fixes ToID :: "string \<Rightarrow> ID"
  defines "loc \<equiv> zero_Location\<lparr>location_fileName := ''a.c'', location_line := 1,
                                 location_usr := ''c:@F@main''\<rparr>"
    and "stdio \<equiv> \<lparr>clang_File_Name = ''/usr/include/stdio.h'',
                   clang_File_Time = \<lparr>Time_Unix = 1400000000, Time_Nanosecond = 0\<rparr>\<rparr>"
  shows "(\<exists>f. mutate_all ToID ToFileID (NewFile ''a.c'' []) [Call_AddDecl loc] = Inr f
            \<and> map_option info_id (index_map (file_symbols f) (ToID ''c:@F@main''))
                = Some (ToID ''c:@F@main'')
            \<and> Serialize IDString FileIDString f [ToID ''c:@F@main''] = Inl NilPointerDereference)
         \<and> (\<exists>f f' b v.
              mutate_all ToID ToFileID (NewFile ''a.c'' [])
                [Call_AddTranslationUnit ''tu'', Call_AddDecl loc,
                 Call_AddHeader now ''stdio.h'' stdio] = Inr f
              \<and> file_headers f
                  = [Some \<lparr>header_fileid = ToFileID ''/usr/include/stdio.h'',
                           header_mtime = \<lparr>Time_Unix = 1400000000, Time_Nanosecond = 0\<rparr>,
                           header_header = None\<rparr>]
              \<and> map_option info_id (index_map (file_symbols f) (ToID ''c:@F@main''))
                  = Some (ToID ''c:@F@main'')
              \<and> Serialize IDString FileIDString f [ToID ''c:@F@main''] = Inr (f', b)
              \<and> decode_File b = Inr v
              \<and> observe_File ToID ToFileID v
                  = Inr (''a.c'', [], ''tu'',
                         [\<lparr>info_id = ToID (IDString (ToID ''c:@F@main'')), info_decls = [loc],
                           info_def = zero_Location, info_callers = [], info_info = None\<rparr>],
                         [(ToFileID (FileIDString (ToFileID ''/usr/include/stdio.h'')),
                           1400000000)]))"
proof -
  define f1 where "f1 = (NewFile ''a.c'' [])\<lparr>
      file_locations := Some [loc \<mapsto> ToID ''c:@F@main''],
      file_symbols := Some [ToID ''c:@F@main'' \<mapsto>
        \<lparr>info_id = ToID ''c:@F@main'', info_decls = [loc], info_def = zero_Location,
         info_callers = [], info_info = None\<rparr>]\<rparr>"
  define f2 where "f2 = f1\<lparr>file_translationUnit := ''tu'',
      file_headers := [Some \<lparr>header_fileid = ToFileID ''/usr/include/stdio.h'',
                             header_mtime = \<lparr>Time_Unix = 1400000000, Time_Nanosecond = 0\<rparr>,
                             header_header = None\<rparr>]\<rparr>"
  have m1: "mutate_all ToID ToFileID (NewFile ''a.c'' []) [Call_AddDecl loc] = Inr f1"
    by (simp add: AddDecl_def addSymbol_def NewFile_def zero_File_def index_map_def
        isExist_def zero_Info_def loc_def Let_def and_then_def f1_def)
  have m2: "mutate_all ToID ToFileID (NewFile ''a.c'' [])
              [Call_AddTranslationUnit ''tu'', Call_AddDecl loc,
               Call_AddHeader now ''stdio.h'' stdio] = Inr f2"
    by (simp add: AddDecl_def addSymbol_def NewFile_def zero_File_def index_map_def
        isExist_def zero_Info_def loc_def Let_def and_then_def f1_def f2_def
        AddTranslationUnit_def AddHeader_def stdio_def Clean_stdio zero_Header_def)
  have id1: "map_option info_id (index_map (file_symbols f1) (ToID ''c:@F@main''))
             = Some (ToID ''c:@F@main'')"
    and id2: "map_option info_id (index_map (file_symbols f2) (ToID ''c:@F@main''))
             = Some (ToID ''c:@F@main'')"
    by (simp_all add: f1_def f2_def index_map_def)
  have panic: "Serialize IDString FileIDString f1 [ToID ''c:@F@main''] = Inl NilPointerDereference"
    by (rule Serialize_no_TranslationUnit) (simp_all add: f1_def NewFile_def zero_File_def)
  have range: "range_map (file_symbols f2) [ToID ''c:@F@main'']
               = [\<lparr>info_id = ToID ''c:@F@main'', info_decls = [loc], info_def = zero_Location,
                   info_callers = [], info_info = None\<rparr>]"
    by (simp add: f2_def f1_def range_map_def List.map_filter_def)
  have fields: "file_name f2 = ''a.c''" "file_flags f2 = []" "file_translationUnit f2 = ''tu''"
      "file_headers f2
       = [Some \<lparr>header_fileid = ToFileID ''/usr/include/stdio.h'',
                header_mtime = \<lparr>Time_Unix = 1400000000, Time_Nanosecond = 0\<rparr>,
                header_header = None\<rparr>]"
    by (simp_all add: f2_def f1_def NewFile_def zero_File_def)
  have "\<exists>f' b v. Serialize IDString FileIDString f2 [ToID ''c:@F@main''] = Inr (f', b)
           \<and> decode_File b = Inr v
           \<and> observe_File ToID ToFileID v
               = Inr (file_name f2, file_flags f2, file_translationUnit f2,
                      map (stored_Info ToID IDString) (range_map (file_symbols f2) [ToID ''c:@F@main'']),
                      map (stored_Header ToFileID FileIDString) (file_headers f2))"
  proof (rule Serialize_roundtrip)
    show "file_name f2 \<noteq> []" and "file_translationUnit f2 \<noteq> []"
      and "None \<notin> set (file_headers f2)"
      by (simp_all add: f2_def f1_def NewFile_def zero_File_def)
    show "iteration_order (file_symbols f2) [ToID ''c:@F@main'']"
      by (simp add: f2_def f1_def iteration_order_def)
    show "None \<notin> set (info_callers i)"
      if "i \<in> set (range_map (file_symbols f2) [ToID ''c:@F@main''])" for i
      using that by (simp add: range)
  qed
  then have round: "\<exists>f' b v. Serialize IDString FileIDString f2 [ToID ''c:@F@main''] = Inr (f', b)
           \<and> decode_File b = Inr v
           \<and> observe_File ToID ToFileID v
               = Inr (''a.c'', [], ''tu'',
                         [\<lparr>info_id = ToID (IDString (ToID ''c:@F@main'')), info_decls = [loc],
                           info_def = zero_Location, info_callers = [], info_info = None\<rparr>],
                         [(ToFileID (FileIDString (ToFileID ''/usr/include/stdio.h'')),
                           1400000000)])"
    by (simp add: range fields stored_Info_def stored_Location_def loc_def zero_Location_def
        stored_Header_def)
  from m1 id1 panic m2 id2 fields(4) round show ?thesis
    by blast
qed

section \<open>The location index\<close>














section \<open>The slices that Symbols and Unmarshal build\<close>






section \<open>The accessors of an entity without a backing buffer\<close>

lemma Location_numbers_no_buffer:
  assumes "location_location l = None"
  shows "Location_Line l = Inl NilPointerDereference"
    and "Location_Col l = Inl NilPointerDereference"
    and "Location_Offset l = Inl NilPointerDereference"
    and "Location_FileName l = Inr (location_fileName l)"
    and "Location_USR l = Inr (location_usr l)"
  using assms
  by (simp_all add: Location_Line_def Location_Col_def Location_Offset_def
      Location_FileName_def Location_USR_def)

lemma File_accessors_in_memory:
  shows "file_name f \<noteq> [] \<Longrightarrow> File_Name f = Inr (file_name f)"
    and "file_flags f \<noteq> [] \<Longrightarrow> File_Flags f = Inr (file_flags f)"
    and "file_translationUnit f \<noteq> [] \<Longrightarrow> File_TranslationUnit f = Inr (file_translationUnit f)"
    and "file_headers f \<noteq> [] \<Longrightarrow> File_Headers f = Inr (file_headers f)"
  by (simp_all add: File_Name_def File_Flags_def File_TranslationUnit_def File_Headers_def)

lemma File_accessors_buffer:
  assumes "file_file f = Some t"
  shows "file_name f = [] \<Longrightarrow> File_Name f = symbol_File_Name t"
    and "file_translationUnit f = [] \<Longrightarrow> File_TranslationUnit f = symbol_File_TranslationUnit t"
    and "file_flags f = [] \<Longrightarrow> File_Flags f = File_Flags (zero_File\<lparr>file_file := Some t\<rparr>)"
    and "file_headers f = [] \<Longrightarrow> File_Headers f = File_Headers (zero_File\<lparr>file_file := Some t\<rparr>)"
  using assms
  by (simp_all add: File_Name_def File_Flags_def File_TranslationUnit_def File_Headers_def
      zero_File_def)

text \<open>
  C8. The sentence does not hold of every accessor. \<open>Line\<close>, \<open>Col\<close> and \<open>Offset\<close> of a
  \<open>Location\<close> read the backing buffer and nothing else: on the \<open>Location\<close> that an indexer
  passes to \<open>AddDecl\<close>, which has a line, a column and an offset in memory and no buffer,
  each of them dereferences the nil pointer, where \<open>FileName\<close> and \<open>USR\<close> of the same
  \<open>Location\<close> test the pointer and return the value in memory, and \<open>Name\<close> and \<open>Flags\<close> of
  the \<open>File\<close> return theirs. The accessors of the \<open>Info\<close> and of the \<open>Caller\<close> that
  \<open>AddDecl\<close> and \<open>AddCaller\<close> have stored in that \<open>File\<close> do the same: the \<open>ID\<close>, the
  declarations and the callers are in memory, and every accessor dereferences the nil
  pointer to the buffer.
\<close>

theorem Location_Line_build_mode:
  fixes ToID :: "string \<Rightarrow> ID"
  defines "loc \<equiv> zero_Location\<lparr>location_fileName := ''a.c'', location_line := 5,
                                 location_col := 3, location_offset := 42,
                                 location_usr := ''c:@F@main''\<rparr>"
  shows "Location_Line loc = Inl NilPointerDereference
       \<and> Location_Col loc = Inl NilPointerDereference
       \<and> Location_Offset loc = Inl NilPointerDereference
       \<and> Location_FileName loc = Inr ''a.c''
       \<and> Location_USR loc = Inr ''c:@F@main''
       \<and> File_Name (NewFile ''a.c'' [''-Wall'']) = Inr ''a.c''
       \<and> File_Flags (NewFile ''a.c'' [''-Wall'']) = Inr [''-Wall'']
       \<and> (\<exists>f info caller.
             mutate_all ToID ToFileID (NewFile ''a.c'' [''-Wall''])
               [Call_AddDecl loc, Call_AddCaller loc zero_Location True] = Inr f
             \<and> index_map (file_symbols f) (ToID ''c:@F@main'') = Some info
             \<and> info_id info = ToID ''c:@F@main'' \<and> info_decls info = [loc]
             \<and> info_callers info = [Some caller] \<and> caller_location caller = loc
             \<and> Info_ID ToID info = Inl NilPointerDereference
             \<and> Info_Decls info = Inl NilPointerDereference
             \<and> Info_Def info = Inl NilPointerDereference
             \<and> Info_Callers info = Inl NilPointerDereference
             \<and> Caller_Location caller = Inl NilPointerDereference
             \<and> Caller_FuncCall caller = Inl NilPointerDereference)"
proof -
  have none: "location_location loc = None"
    by (simp add: loc_def zero_Location_def)
  have numbers: "Location_Line loc = Inl NilPointerDereference"
    "Location_Col loc = Inl NilPointerDereference"
    "Location_Offset loc = Inl NilPointerDereference"
    by (simp_all add: Location_numbers_no_buffer [OF none])
  have strings: "Location_FileName loc = Inr ''a.c''" "Location_USR loc = Inr ''c:@F@main''"
    by (simp_all add: Location_numbers_no_buffer [OF none]) (simp_all add: loc_def)
  have names: "File_Name (NewFile ''a.c'' [''-Wall'']) = Inr ''a.c''"
    "File_Flags (NewFile ''a.c'' [''-Wall'']) = Inr [''-Wall'']"
    by (simp_all add: File_Name_def File_Flags_def NewFile_def zero_File_def)
  define caller where "caller = zero_Caller\<lparr>caller_location := loc, caller_funcCall := True\<rparr>"
  define info where "info = \<lparr>info_id = ToID ''c:@F@main'', info_decls = [loc],
      info_def = zero_Location, info_callers = [Some caller], info_info = None\<rparr>"
  define f where "f = (NewFile ''a.c'' [''-Wall''])\<lparr>
      file_locations := Some [loc \<mapsto> ToID ''c:@F@main''],
      file_symbols := Some [ToID ''c:@F@main'' \<mapsto> info]\<rparr>"
  have usr: "location_usr loc = ''c:@F@main''"
    by (simp add: loc_def)
  have built: "mutate_all ToID ToFileID (NewFile ''a.c'' [''-Wall''])
                 [Call_AddDecl loc, Call_AddCaller loc zero_Location True] = Inr f"
    by (simp add: AddDecl_def addSymbol_def AddCaller_def NewFile_def zero_File_def
        index_map_def isExist_always zero_Info_def Let_def and_then_def usr f_def info_def
        caller_def)
  have lookup: "index_map (file_symbols f) (ToID ''c:@F@main'') = Some info"
    by (simp add: f_def index_map_def)
  have fields: "info_id info = ToID ''c:@F@main''" "info_decls info = [loc]"
    "info_callers info = [Some caller]" "caller_location caller = loc"
    by (simp_all add: info_def caller_def)
  have panics: "Info_ID ToID info = Inl NilPointerDereference"
    "Info_Decls info = Inl NilPointerDereference"
    "Info_Def info = Inl NilPointerDereference"
    "Info_Callers info = Inl NilPointerDereference"
    "Caller_Location caller = Inl NilPointerDereference"
    "Caller_FuncCall caller = Inl NilPointerDereference"
    by (simp_all add: Info_ID_def Info_Decls_def Info_Def_def Info_Callers_def
        Caller_Location_def Caller_FuncCall_def info_def caller_def zero_Caller_def)
  from numbers strings names built lookup fields panics show ?thesis
    by blast
qed

end
